theory Spec2Isabelle
  imports Complex_Main
begin

section \<open>Go runtime values, errors and string helpers\<close>

text \<open>
  A Go \<open>interface{}\<close> value as the builders see it: the nil interface, a scalar, a
  slice, or a map. A Go map is kept as the list of its entries in the order in which
  \<open>range\<close> enumerates them (the keys of one map are distinct); the language leaves
  that order unspecified, so every function that ranges over a map is a function of
  the enumeration.
\<close>

datatype val =
    VNil
  | VBool bool
  | VInt int
  | VStr string
  | VList "val list"
  | VMap "(string \<times> val) list"

text \<open>
  \<open>Err\<close> is an error value returned by the code (\<open>fmt.Errorf\<close>), with its
  message; \<open>Panic\<close> is a run-time panic (nil dereference, failed type assertion).
\<close>

datatype error = Err string | Panic string

type_synonym 'a result = "error + 'a"

text \<open>The verb \<open>%d\<close> of \<open>fmt.Sprintf\<close> on an \<open>int\<close>.\<close>

definition digit :: "nat \<Rightarrow> char" where
  "digit d = ''0123456789'' ! d"

fun showNat :: "nat \<Rightarrow> string" where
  "showNat n = (if n < 10 then [digit n] else showNat (n div 10) @ [digit (n mod 10)])"

declare showNat.simps [simp del]

definition showInt :: "int \<Rightarrow> string" where
  "showInt i = (if i < 0 then CHR ''-'' # showNat (nat (- i)) else showNat (nat i))"

text \<open>\<open>strings.Join\<close>.\<close>

fun join :: "string list \<Rightarrow> string \<Rightarrow> string" where
  "join [] sep = []"
| "join [x] sep = x"
| "join (x # y # ys) sep = x @ sep @ join (y # ys) sep"

text \<open>\<open>strings.TrimPrefix\<close>: the string without the prefix, or the string itself.\<close>

fun stripPrefix :: "string \<Rightarrow> string \<Rightarrow> string option" where
  "stripPrefix [] s = Some s"
| "stripPrefix (p # ps) [] = None"
| "stripPrefix (p # ps) (c # cs) = (if p = c then stripPrefix ps cs else None)"

definition TrimPrefix :: "string \<Rightarrow> string \<Rightarrow> string" where
  "TrimPrefix s p = (case stripPrefix p s of Some r \<Rightarrow> r | None \<Rightarrow> s)"

text \<open>
  \<open>strings.ToLower\<close> and \<open>strings.ToUpper\<close> on the ASCII letters. The code only
  compares their results with the ASCII words \<open>desc\<close>, \<open>AND\<close> and \<open>OR\<close>, and no
  character outside ASCII maps to a letter of these words.
\<close>

definition lowerChar :: "char \<Rightarrow> char" where
  "lowerChar c =
     (if (65::nat) \<le> of_char c \<and> of_char c \<le> (90::nat)
      then char_of (of_char c + (32::nat)) else c)"

definition upperChar :: "char \<Rightarrow> char" where
  "upperChar c =
     (if (97::nat) \<le> of_char c \<and> of_char c \<le> (122::nat)
      then char_of (of_char c - (32::nat)) else c)"

definition ToLower :: "string \<Rightarrow> string" where
  "ToLower s = map lowerChar s"

definition ToUpper :: "string \<Rightarrow> string" where
  "ToUpper s = map upperChar s"

section \<open>The planner's intermediate representation\<close>

text \<open>
  The packages \<open>planner\<close> and \<open>dsl\<close> declare the types below. \<open>FieldType\<close>,
  \<open>Operator\<close> and \<open>Operation\<close> are Go string types; their constants carry the wire
  names of the catalog types and of the DSL operators.
\<close>

type_synonym FieldType = string

abbreviation TypeString :: FieldType where "TypeString \<equiv> ''string''"
abbreviation TypeInteger :: FieldType where "TypeInteger \<equiv> ''integer''"
abbreviation TypeDecimal :: FieldType where "TypeDecimal \<equiv> ''decimal''"
abbreviation TypeBoolean :: FieldType where "TypeBoolean \<equiv> ''boolean''"
abbreviation TypeDateTime :: FieldType where "TypeDateTime \<equiv> ''datetime''"
abbreviation TypeTimestamp :: FieldType where "TypeTimestamp \<equiv> ''timestamp''"
abbreviation TypeDate :: FieldType where "TypeDate \<equiv> ''date''"
abbreviation TypeUUID :: FieldType where "TypeUUID \<equiv> ''uuid''"
abbreviation TypeJSON :: FieldType where "TypeJSON \<equiv> ''json''"
abbreviation TypeBinary :: FieldType where "TypeBinary \<equiv> ''binary''"

type_synonym Operator = string

abbreviation OpEqual :: Operator where "OpEqual \<equiv> ''=''"
abbreviation OpNotEqual :: Operator where "OpNotEqual \<equiv> ''!=''"
abbreviation OpGT :: Operator where "OpGT \<equiv> ''>''"
abbreviation OpGTE :: Operator where "OpGTE \<equiv> ''>=''"
abbreviation OpLT :: Operator where "OpLT \<equiv> ''<''"
abbreviation OpLTE :: Operator where "OpLTE \<equiv> ''<=''"
abbreviation OpIn :: Operator where "OpIn \<equiv> ''in''"
abbreviation OpNotIn :: Operator where "OpNotIn \<equiv> ''not_in''"
abbreviation OpIsNull :: Operator where "OpIsNull \<equiv> ''is_null''"
abbreviation OpNotNull :: Operator where "OpNotNull \<equiv> ''not_null''"
abbreviation OpLike :: Operator where "OpLike \<equiv> ''like''"
abbreviation OpILike :: Operator where "OpILike \<equiv> ''ilike''"
abbreviation OpStartsWith :: Operator where "OpStartsWith \<equiv> ''starts_with''"
abbreviation OpEndsWith :: Operator where "OpEndsWith \<equiv> ''ends_with''"
abbreviation OpContains :: Operator where "OpContains \<equiv> ''contains''"
abbreviation OpBetween :: Operator where "OpBetween \<equiv> ''between''"
abbreviation OpBefore :: Operator where "OpBefore \<equiv> ''before''"
abbreviation OpAfter :: Operator where "OpAfter \<equiv> ''after''"

type_synonym Operation = string

abbreviation OpSelect :: Operation where "OpSelect \<equiv> ''select''"
abbreviation OpCreate :: Operation where "OpCreate \<equiv> ''create''"
abbreviation OpUpdate :: Operation where "OpUpdate \<equiv> ''update''"
abbreviation OpDelete :: Operation where "OpDelete \<equiv> ''delete''"

record ColumnRef =
  TableAlias :: string
  ColumnName :: string
  DataType :: FieldType

text \<open>
  The value of a comparison: the builders read \<open>f.Value.Value\<close> and the relational
  one tests \<open>f.Value == nil\<close>, so \<open>Value\<close> is a pointer to a structure with a field
  \<open>Value\<close>; \<open>None\<close> is the nil pointer.
\<close>

record ValueIR =
  Value_v :: val

record ComparisonFilterIR =
  Left :: ColumnRef
  Operator :: Operator
  Value :: "ValueIR option"

text \<open>
  \<open>FilterExpr\<close> is an interface: \<open>NilFilterExpr\<close> is its nil value and
  \<open>OtherFilterExpr t\<close> stands for a dynamic type that is neither of the two filter
  structures, \<open>t\<close> being its name as the verb \<open>%T\<close> prints it.
\<close>

datatype FilterExpr =
    NilFilterExpr
  | Comparison ComparisonFilterIR
  | LogicalFilterIR (Op: string) (Nodes: "FilterExpr list")
  | OtherFilterExpr string

datatype AggregateFunc = AggCountFn | AggSumFn | AggAvgFn | AggMinFn | AggMaxFn | AggOtherFn

record AggregateExpr =
  Function :: AggregateFunc
  Column_a :: "ColumnRef option"
  Alias_a :: string

record SelectExpr =
  Column_s :: ColumnRef
  Alias_s :: string

record GroupByExpr =
  Column_g :: ColumnRef

record SortExpr =
  Column :: "ColumnRef option"
  Aggregate :: "AggregateExpr option"
  Direction :: string

record Pagination =
  Limit :: int
  Offset :: int

record ModelRef =
  Table :: string
  Alias :: string
  PrimaryKey :: ColumnRef

record QueryPlan =
  Operation :: Operation
  RootModel :: "ModelRef option"
  Select :: "SelectExpr list"
  Filters :: FilterExpr
  GroupBy :: "GroupByExpr list"
  Aggregates :: "AggregateExpr list"
  Sort :: "SortExpr list"
  Pagination :: Pagination
  Data :: "(string \<times> val) list"
  ID :: val

section \<open>The relational query builder\<close>

text \<open>\<open>getPostgreSQLType\<close>: the cast of a field type, empty when there is none.\<close>

definition getPostgreSQLType :: "FieldType \<Rightarrow> string" where
  "getPostgreSQLType fieldType =
     (if fieldType = TypeUUID then ''uuid''
      else if fieldType = TypeJSON then ''jsonb''
      else if fieldType = TypeBinary then ''bytea''
      else if fieldType = TypeTimestamp \<or> fieldType = TypeDate \<or> fieldType = TypeDateTime
        then ''timestamp''
      else [])"

definition needsTypeCasting :: "FieldType \<Rightarrow> bool" where
  "needsTypeCasting fieldType =
     (fieldType = TypeUUID \<or> fieldType = TypeJSON \<or> fieldType = TypeBinary
      \<or> fieldType = TypeTimestamp)"

definition addTypeCast :: "string \<Rightarrow> FieldType \<Rightarrow> string" where
  "addTypeCast paramPlaceholder fieldType =
     (let pgType = getPostgreSQLType fieldType in
      if pgType = [] then paramPlaceholder
      else ''$'' @ TrimPrefix paramPlaceholder ''$'' @ ''::'' @ pgType)"

text \<open>The builder's state: the bound values and the number of the last placeholder.\<close>

record QueryBuilder =
  params :: "val list"
  paramCount :: int

text \<open>\<open>qb.paramCount++\<close> followed by \<open>qb.params = append(qb.params, v)\<close>.\<close>

definition bindParam :: "QueryBuilder \<Rightarrow> val \<Rightarrow> QueryBuilder" where
  "bindParam qb v = qb\<lparr>paramCount := paramCount qb + 1, params := params qb @ [v]\<rparr>"

definition colNameOf :: "ColumnRef \<Rightarrow> string" where
  "colNameOf c = TableAlias c @ ''.'' @ ColumnName c"

text \<open>
  \<open>buildComparisonFilter\<close>, one branch for each operator of the switch. A branch
  that binds a pattern increments the counter, then asserts that the value is a string
  (\<open>f.Value.Value.(string)\<close> panics otherwise) and appends the pattern.
\<close>

definition buildComparisonFilter ::
  "QueryBuilder \<Rightarrow> ComparisonFilterIR \<Rightarrow> string result \<times> QueryBuilder"
where
  "buildComparisonFilter qb f =
     (let colName = colNameOf (Left f); op = Operator f in
      if op = OpEqual then
        (case Value f of
           None \<Rightarrow> (Inl (Err ''value required for = operator''), qb)
         | Some v \<Rightarrow>
             let qb' = bindParam qb (Value_v v);
                 paramPlaceholder = ''$'' @ showInt (paramCount qb');
                 paramPlaceholder' =
                   (if needsTypeCasting (DataType (Left f))
                    then addTypeCast paramPlaceholder (DataType (Left f))
                    else paramPlaceholder)
             in (Inr (colName @ '' = '' @ paramPlaceholder'), qb'))
      else if op = OpNotEqual then
        (case Value f of
           None \<Rightarrow> (Inl (Err ''value required for != operator''), qb)
         | Some v \<Rightarrow>
             let qb' = bindParam qb (Value_v v);
                 paramPlaceholder = ''$'' @ showInt (paramCount qb');
                 paramPlaceholder' =
                   (if needsTypeCasting (DataType (Left f))
                    then addTypeCast paramPlaceholder (DataType (Left f))
                    else paramPlaceholder)
             in (Inr (colName @ '' != '' @ paramPlaceholder'), qb'))
      else if op = OpGT then
        (case Value f of
           None \<Rightarrow> (Inl (Err ''value required for > operator''), qb)
         | Some v \<Rightarrow>
             let qb' = bindParam qb (Value_v v)
             in (Inr (colName @ '' > $'' @ showInt (paramCount qb')), qb'))
      else if op = OpGTE then
        (case Value f of
           None \<Rightarrow> (Inl (Err ''value required for >= operator''), qb)
         | Some v \<Rightarrow>
             let qb' = bindParam qb (Value_v v)
             in (Inr (colName @ '' >= $'' @ showInt (paramCount qb')), qb'))
      else if op = OpLT then
        (case Value f of
           None \<Rightarrow> (Inl (Err ''value required for < operator''), qb)
         | Some v \<Rightarrow>
             let qb' = bindParam qb (Value_v v)
             in (Inr (colName @ '' < $'' @ showInt (paramCount qb')), qb'))
      else if op = OpLTE then
        (case Value f of
           None \<Rightarrow> (Inl (Err ''value required for <= operator''), qb)
         | Some v \<Rightarrow>
             let qb' = bindParam qb (Value_v v)
             in (Inr (colName @ '' <= $'' @ showInt (paramCount qb')), qb'))
      else if op = OpIn then
        (case Value f of
           None \<Rightarrow> (Inl (Err ''value required for in operator''), qb)
         | Some v \<Rightarrow>
             let qb' = bindParam qb (Value_v v);
                 paramPlaceholder = ''$'' @ showInt (paramCount qb');
                 paramPlaceholder' =
                   (if needsTypeCasting (DataType (Left f))
                    then addTypeCast paramPlaceholder (DataType (Left f))
                    else paramPlaceholder)
             in (Inr (colName @ '' = ANY('' @ paramPlaceholder' @ '')''), qb'))
      else if op = OpNotIn then
        (case Value f of
           None \<Rightarrow> (Inl (Err ''value required for not_in operator''), qb)
         | Some v \<Rightarrow>
             let qb' = bindParam qb (Value_v v);
                 paramPlaceholder = ''$'' @ showInt (paramCount qb');
                 paramPlaceholder' =
                   (if needsTypeCasting (DataType (Left f))
                    then addTypeCast paramPlaceholder (DataType (Left f))
                    else paramPlaceholder)
             in (Inr (colName @ '' != ALL('' @ paramPlaceholder' @ '')''), qb'))
      else if op = OpIsNull then (Inr (colName @ '' IS NULL''), qb)
      else if op = OpNotNull then (Inr (colName @ '' IS NOT NULL''), qb)
      else if op = OpLike then
        (case Value f of
           None \<Rightarrow> (Inl (Err ''value required for like operator''), qb)
         | Some v \<Rightarrow>
             let qb' = bindParam qb (Value_v v)
             in (Inr (colName @ '' LIKE $'' @ showInt (paramCount qb')), qb'))
      else if op = OpILike then
        (case Value f of
           None \<Rightarrow> (Inl (Err ''value required for ilike operator''), qb)
         | Some v \<Rightarrow>
             let qb' = bindParam qb (Value_v v)
             in (Inr (colName @ '' ILIKE $'' @ showInt (paramCount qb')), qb'))
      else if op = OpStartsWith then
        (case Value f of
           None \<Rightarrow> (Inl (Err ''value required for starts_with operator''), qb)
         | Some v \<Rightarrow>
             let qb' = qb\<lparr>paramCount := paramCount qb + 1\<rparr> in
             (case Value_v v of
                VStr s \<Rightarrow>
                  let qb'' = qb'\<lparr>params := params qb' @ [VStr (s @ ''%'')]\<rparr>
                  in (Inr (colName @ '' LIKE $'' @ showInt (paramCount qb'')), qb'')
              | _ \<Rightarrow> (Inl (Panic ''interface conversion: interface {} is not string''), qb')))
      else if op = OpEndsWith then
        (case Value f of
           None \<Rightarrow> (Inl (Err ''value required for ends_with operator''), qb)
         | Some v \<Rightarrow>
             let qb' = qb\<lparr>paramCount := paramCount qb + 1\<rparr> in
             (case Value_v v of
                VStr s \<Rightarrow>
                  let qb'' = qb'\<lparr>params := params qb' @ [VStr (''%'' @ s)]\<rparr>
                  in (Inr (colName @ '' LIKE $'' @ showInt (paramCount qb'')), qb'')
              | _ \<Rightarrow> (Inl (Panic ''interface conversion: interface {} is not string''), qb')))
      else if op = OpContains then
        (case Value f of
           None \<Rightarrow> (Inl (Err ''value required for contains operator''), qb)
         | Some v \<Rightarrow>
             let qb' = qb\<lparr>paramCount := paramCount qb + 1\<rparr> in
             (case Value_v v of
                VStr s \<Rightarrow>
                  let qb'' = qb'\<lparr>params := params qb' @ [VStr (''%'' @ s @ ''%'')]\<rparr>
                  in (Inr (colName @ '' LIKE $'' @ showInt (paramCount qb'')), qb'')
              | _ \<Rightarrow> (Inl (Panic ''interface conversion: interface {} is not string''), qb')))
      else if op = OpBetween then
        (case Value f of
           None \<Rightarrow> (Inl (Err ''value required for between operator''), qb)
         | Some v \<Rightarrow>
             let qb' = bindParam qb (Value_v v)
             in (Inr (colName @ '' BETWEEN $'' @ showInt (paramCount qb') @ '' AND $''
                      @ showInt (paramCount qb' + 1)), qb'))
      else if op = OpBefore then
        (case Value f of
           None \<Rightarrow> (Inl (Err ''value required for before operator''), qb)
         | Some v \<Rightarrow>
             let qb' = bindParam qb (Value_v v)
             in (Inr (colName @ '' < $'' @ showInt (paramCount qb')), qb'))
      else if op = OpAfter then
        (case Value f of
           None \<Rightarrow> (Inl (Err ''value required for after operator''), qb)
         | Some v \<Rightarrow>
             let qb' = bindParam qb (Value_v v)
             in (Inr (colName @ '' > $'' @ showInt (paramCount qb')), qb'))
      else (Inl (Err (''unknown operator: '' @ op)), qb))"

text \<open>
  \<open>buildFilterExpression\<close> and \<open>buildLogicalFilter\<close>; \<open>buildNodes\<close> is the loop of
  the latter over \<open>f.Nodes\<close>, which stops at the first error.
\<close>

fun buildFilterExpression :: "QueryBuilder \<Rightarrow> FilterExpr \<Rightarrow> string result \<times> QueryBuilder"
  and buildNodes :: "QueryBuilder \<Rightarrow> FilterExpr list \<Rightarrow> string list \<Rightarrow> string list result \<times> QueryBuilder"
where
  "buildFilterExpression qb (Comparison e) = buildComparisonFilter qb e"
| "buildFilterExpression qb (LogicalFilterIR op nodes) =
     (if length nodes = 0 then (Inl (Err ''logical filter has no nodes''), qb)
      else
        (case buildNodes qb nodes [] of
           (Inl err, qb') \<Rightarrow> (Inl err, qb')
         | (Inr parts, qb') \<Rightarrow>
             if op = ''AND'' then (Inr (''('' @ join parts '' AND '' @ '')''), qb')
             else if op = ''OR'' then (Inr (''('' @ join parts '' OR '' @ '')''), qb')
             else if op = ''NOT'' then
               (if length parts \<noteq> 1
                then (Inl (Err ''NOT filter must have exactly one node''), qb')
                else (Inr (''NOT '' @ parts ! 0), qb'))
             else (Inl (Err (''unknown logical operator: '' @ op)), qb')))"
| "buildFilterExpression qb (OtherFilterExpr t) = (Inl (Err ''unknown filter expression type''), qb)"
| "buildFilterExpression qb NilFilterExpr = (Inl (Err ''unknown filter expression type''), qb)"
| "buildNodes qb [] parts = (Inr parts, qb)"
| "buildNodes qb (node # nodes) parts =
     (case buildFilterExpression qb node of
        (Inl err, qb') \<Rightarrow> (Inl err, qb')
      | (Inr nodeSql, qb') \<Rightarrow> buildNodes qb' nodes (parts @ [nodeSql]))"

definition buildWhereClause :: "QueryBuilder \<Rightarrow> FilterExpr \<Rightarrow> string result \<times> QueryBuilder" where
  "buildWhereClause qb filterExpr =
     (case buildFilterExpression qb filterExpr of
        (Inl err, qb') \<Rightarrow> (Inl err, qb')
      | (Inr filterSQL, qb') \<Rightarrow> (Inr (''WHERE '' @ filterSQL), qb'))"

text \<open>
  \<open>buildAggregateExpression\<close>. \<open>agg.Column\<close> is a pointer: only the count branch
  tests it, the other branches dereference it.
\<close>

definition aggCall :: "string \<Rightarrow> AggregateExpr \<Rightarrow> string result" where
  "aggCall fn agg =
     (case Column_a agg of
        None \<Rightarrow> Inl (Panic ''nil pointer dereference'')
      | Some c \<Rightarrow> Inr (fn @ ''('' @ TableAlias c @ ''.'' @ ColumnName c @ '')''))"

definition buildAggregateExpression :: "AggregateExpr \<Rightarrow> string result" where
  "buildAggregateExpression agg =
     (let aggSQL =
        (case Function agg of
           AggCountFn \<Rightarrow>
             (case Column_a agg of
                None \<Rightarrow> Inr ''COUNT(*)''
              | Some c \<Rightarrow> Inr (''COUNT('' @ TableAlias c @ ''.'' @ ColumnName c @ '')''))
         | AggSumFn \<Rightarrow> aggCall ''SUM'' agg
         | AggAvgFn \<Rightarrow> aggCall ''AVG'' agg
         | AggMinFn \<Rightarrow> aggCall ''MIN'' agg
         | AggMaxFn \<Rightarrow> aggCall ''MAX'' agg
         | AggOtherFn \<Rightarrow> Inr ''COUNT(*)'')
      in case aggSQL of
           Inl err \<Rightarrow> Inl err
         | Inr s \<Rightarrow> Inr (s @ '' AS '' @ Alias_a agg))"

fun aggregateColumns :: "AggregateExpr list \<Rightarrow> string list \<Rightarrow> string list result" where
  "aggregateColumns [] columns = Inr columns"
| "aggregateColumns (agg # aggs) columns =
     (case buildAggregateExpression agg of
        Inl err \<Rightarrow> Inl err
      | Inr aggStr \<Rightarrow> aggregateColumns aggs (columns @ [aggStr]))"

definition selectColumn :: "SelectExpr \<Rightarrow> string" where
  "selectColumn expr =
     (let colName = TableAlias (Column_s expr) @ ''.'' @ ColumnName (Column_s expr) in
      if Alias_s expr \<noteq> ColumnName (Column_s expr)
      then colName @ '' AS '' @ Alias_s expr else colName)"

definition groupColumn :: "GroupByExpr \<Rightarrow> string" where
  "groupColumn groupExpr = TableAlias (Column_g groupExpr) @ ''.'' @ ColumnName (Column_g groupExpr)"

definition buildSelectClause :: "QueryPlan \<Rightarrow> string result" where
  "buildSelectClause plan =
     (let columns = (if length (Select plan) > 0 then map selectColumn (Select plan) else []);
          columns' =
            (if length (GroupBy plan) > 0 \<and> length (Select plan) = 0
             then columns @ map groupColumn (GroupBy plan) else columns)
      in case aggregateColumns (Aggregates plan) columns' of
           Inl err \<Rightarrow> Inl err
         | Inr columns'' \<Rightarrow>
             if length columns'' = 0 then Inr ''SELECT *''
             else Inr (''SELECT '' @ join columns'' '', ''))"

definition buildFromClause :: "ModelRef \<Rightarrow> string" where
  "buildFromClause rootModel = ''FROM '' @ Table rootModel @ '' '' @ Alias rootModel"

definition buildGroupByClause :: "QueryPlan \<Rightarrow> string" where
  "buildGroupByClause plan = ''GROUP BY '' @ join (map groupColumn (GroupBy plan)) '', ''"

definition sortColumn :: "SortExpr \<Rightarrow> string" where
  "sortColumn sortExpr =
     (let colRef =
        (case Column sortExpr of
           Some c \<Rightarrow> TableAlias c @ ''.'' @ ColumnName c
         | None \<Rightarrow> (case Aggregate sortExpr of Some a \<Rightarrow> Alias_a a | None \<Rightarrow> []));
          direction = (if Direction sortExpr = ''DESC'' then ''DESC'' else ''ASC'')
      in colRef @ '' '' @ direction)"

definition buildOrderByClause :: "QueryPlan \<Rightarrow> string" where
  "buildOrderByClause plan = ''ORDER BY '' @ join (map sortColumn (Sort plan)) '', ''"

definition buildPaginationClause :: "QueryBuilder \<Rightarrow> QueryPlan \<Rightarrow> string \<times> QueryBuilder" where
  "buildPaginationClause qb plan =
     (let qb1 = bindParam qb (VInt (Limit (Pagination plan)));
          limitParam = paramCount qb1;
          qb2 = bindParam qb1 (VInt (Offset (Pagination plan)));
          offsetParam = paramCount qb2
      in (''LIMIT $'' @ showInt limitParam @ '' OFFSET $'' @ showInt offsetParam, qb2))"

text \<open>
  The builders below are called by \<open>BuildQuery\<close> once the model of the plan is known to be
  non-nil; they take it as \<open>rootModel\<close>.
\<close>

definition buildSelect ::
  "QueryBuilder \<Rightarrow> QueryPlan \<Rightarrow> ModelRef \<Rightarrow> (string \<times> val list) result \<times> QueryBuilder"
where
  "buildSelect qb plan rootModel =
     (case buildSelectClause plan of
        Inl err \<Rightarrow> (Inl err, qb)
      | Inr selectPart \<Rightarrow>
          let parts = [selectPart, buildFromClause rootModel] in
          (case (if Filters plan \<noteq> NilFilterExpr then
                   (case buildWhereClause qb (Filters plan) of
                      (Inl err, qb') \<Rightarrow> (Inl err, qb')
                    | (Inr wherePart, qb') \<Rightarrow> (Inr (parts @ [wherePart]), qb'))
                 else (Inr parts, qb)) of
             (Inl err, qb') \<Rightarrow> (Inl err, qb')
           | (Inr parts', qb') \<Rightarrow>
               let parts2 = (if length (GroupBy plan) > 0
                             then parts' @ [buildGroupByClause plan] else parts');
                   parts3 = (if length (Sort plan) > 0
                             then parts2 @ [buildOrderByClause plan] else parts2);
                   (paginationPart, qb'') = buildPaginationClause qb' plan;
                   sql = join (parts3 @ [paginationPart]) '' '' @ '';''
               in (Inr (sql, params qb''), qb'')))"

text \<open>
  The loops of \<open>buildInsert\<close> and \<open>buildUpdate\<close> over \<open>plan.Data\<close>, in the order in
  which \<open>range\<close> enumerates the map.
\<close>

fun insertFields ::
  "QueryBuilder \<Rightarrow> (string \<times> val) list \<Rightarrow> string list \<Rightarrow> string list
     \<Rightarrow> string list \<times> string list \<times> QueryBuilder"
where
  "insertFields qb [] fieldNames placeholders = (fieldNames, placeholders, qb)"
| "insertFields qb ((field, v) # rest) fieldNames placeholders =
     (let qb1 = qb\<lparr>paramCount := paramCount qb + 1\<rparr>;
          placeholders' = placeholders @ [''$'' @ showInt (paramCount qb1)];
          qb2 = qb1\<lparr>params := params qb1 @ [v]\<rparr>
      in insertFields qb2 rest (fieldNames @ [field]) placeholders')"

definition buildInsert ::
  "QueryBuilder \<Rightarrow> QueryPlan \<Rightarrow> ModelRef \<Rightarrow> (string \<times> val list) result \<times> QueryBuilder"
where
  "buildInsert qb plan rootModel =
     (if length (Data plan) = 0 then (Inl (Err ''data is required for insert operation''), qb)
      else
        let (fieldNames, placeholders, qb') = insertFields qb (Data plan) [] [];
            sql = ''INSERT INTO '' @ Table rootModel @ '' ('' @ join fieldNames '', '' @ '') VALUES (''
                  @ join placeholders '', '' @ '') RETURNING *;''
        in (Inr (sql, params qb'), qb'))"

fun updateSets ::
  "QueryBuilder \<Rightarrow> (string \<times> val) list \<Rightarrow> string list \<Rightarrow> string list \<times> QueryBuilder"
where
  "updateSets qb [] sets = (sets, qb)"
| "updateSets qb ((field, v) # rest) sets =
     (let qb1 = qb\<lparr>paramCount := paramCount qb + 1\<rparr>;
          sets' = sets @ [field @ '' = $'' @ showInt (paramCount qb1)];
          qb2 = qb1\<lparr>params := params qb1 @ [v]\<rparr>
      in updateSets qb2 rest sets')"

text \<open>
  The selector of \<open>buildUpdate\<close> and \<open>buildDelete\<close>: the identifier when it is not
  nil, else the filters when they are not nil, else an error naming the operation.
\<close>

definition buildSelector ::
  "QueryBuilder \<Rightarrow> QueryPlan \<Rightarrow> ModelRef \<Rightarrow> string \<Rightarrow> string result \<times> QueryBuilder"
where
  "buildSelector qb plan rootModel opname =
     (if ID plan \<noteq> VNil then
        let qb1 = qb\<lparr>paramCount := paramCount qb + 1\<rparr>;
            where = ''WHERE '' @ ColumnName (PrimaryKey rootModel) @ '' = $'' @ showInt (paramCount qb1);
            qb2 = qb1\<lparr>params := params qb1 @ [ID plan]\<rparr>
        in (Inr where, qb2)
      else if Filters plan \<noteq> NilFilterExpr then buildWhereClause qb (Filters plan)
      else (Inl (Err (''id or filters required for '' @ opname @ '' operation'')), qb))"

definition buildUpdate ::
  "QueryBuilder \<Rightarrow> QueryPlan \<Rightarrow> ModelRef \<Rightarrow> (string \<times> val list) result \<times> QueryBuilder"
where
  "buildUpdate qb plan rootModel =
     (if length (Data plan) = 0 then (Inl (Err ''data is required for update operation''), qb)
      else
        let (sets, qb') = updateSets qb (Data plan) [] in
        (case buildSelector qb' plan rootModel ''update'' of
           (Inl err, qb'') \<Rightarrow> (Inl err, qb'')
         | (Inr where, qb'') \<Rightarrow>
             let sql = ''UPDATE '' @ Table rootModel @ '' SET '' @ join sets '', '' @ '' '' @ where
                       @ '' RETURNING *;''
             in (Inr (sql, params qb''), qb'')))"

definition buildDelete ::
  "QueryBuilder \<Rightarrow> QueryPlan \<Rightarrow> ModelRef \<Rightarrow> (string \<times> val list) result \<times> QueryBuilder"
where
  "buildDelete qb plan rootModel =
     (case buildSelector qb plan rootModel ''delete'' of
        (Inl err, qb') \<Rightarrow> (Inl err, qb')
      | (Inr where, qb') \<Rightarrow>
          let sql = ''DELETE FROM '' @ Table rootModel @ '' '' @ where @ '';''
          in (Inr (sql, params qb'), qb'))"

text \<open>\<open>BuildQuery\<close>; \<open>None\<close> is the nil plan.\<close>

definition BuildQuery ::
  "QueryBuilder \<Rightarrow> QueryPlan option \<Rightarrow> (string \<times> val list) result \<times> QueryBuilder"
where
  "BuildQuery qb planp =
     (case planp of
        None \<Rightarrow> (Inl (Err ''query plan is nil''), qb)
      | Some plan \<Rightarrow>
          (case RootModel plan of
             None \<Rightarrow> (Inl (Err ''root model is nil''), qb)
           | Some rootModel \<Rightarrow>
               let qb0 = qb\<lparr>params := [], paramCount := 0\<rparr>;
                   operation = (if Operation plan = [] then ''select'' else Operation plan)
               in if operation = ''create'' then buildInsert qb0 plan rootModel
                  else if operation = ''update'' then buildUpdate qb0 plan rootModel
                  else if operation = ''delete'' then buildDelete qb0 plan rootModel
                  else if operation = ''select'' \<or> operation = [] then buildSelect qb0 plan rootModel
                  else (Inl (Err (''unsupported operation: '' @ operation)), qb0)))"

text \<open>\<open>NewQueryBuilder\<close>.\<close>

definition NewQueryBuilder :: QueryBuilder where
  "NewQueryBuilder = \<lparr>params = [], paramCount = 0\<rparr>"

section \<open>The document query builder\<close>

text \<open>
  \<open>bson.M\<close> is a Go map from strings to values, \<open>bson.D\<close> an ordered list of
  key-value pairs. The fields of \<open>MongoQuery\<close> are interface values: \<open>VNil\<close> is a
  field left unset.
\<close>

type_synonym bsonM = "(string \<times> val) list"

record FindOptions =
  Limit_o :: "int option"
  Skip_o :: "int option"
  Sort_o :: "(string \<times> int) list option"

record MongoQuery =
  Collection :: string
  Operation_m :: string
  Filter :: val
  Pipeline :: val
  Update :: val
  Document :: val
  Options :: "FindOptions option"

definition convertOperator :: "string \<Rightarrow> val \<Rightarrow> (string \<times> val) result" where
  "convertOperator op v =
     (if op = ''='' \<or> op = ''eq'' then Inr (''$eq'', v)
      else if op = ''!='' \<or> op = ''ne'' then Inr (''$ne'', v)
      else if op = ''>'' \<or> op = ''gt'' then Inr (''$gt'', v)
      else if op = ''>='' \<or> op = ''gte'' then Inr (''$gte'', v)
      else if op = ''<'' \<or> op = ''lt'' then Inr (''$lt'', v)
      else if op = ''<='' \<or> op = ''lte'' then Inr (''$lte'', v)
      else if op = ''in'' then Inr (''$in'', v)
      else if op = ''not_in'' \<or> op = ''nin'' then Inr (''$nin'', v)
      else if op = ''like'' \<or> op = ''contains'' then
        (case v of
           VStr strVal \<Rightarrow> Inr (''$regex'', VStr strVal)
         | _ \<Rightarrow> Inl (Err ''like/contains operator requires string value''))
      else if op = ''is_null'' then Inr (''$exists'', VBool False)
      else if op = ''not_null'' then Inr (''$exists'', VBool True)
      else Inl (Err (''unsupported operator: '' @ op)))"

text \<open>
  \<open>buildComparisonFilter\<close> of the document builder. The argument \<open>f.Value.Value\<close>
  of \<open>convertOperator\<close> is evaluated before the call, for every operator, and
  \<open>f.Value\<close> is not tested: a nil \<open>f.Value\<close> is a nil pointer dereference.
\<close>

definition buildComparisonFilter_mongo :: "ComparisonFilterIR \<Rightarrow> bsonM result" where
  "buildComparisonFilter_mongo f =
     (let fieldName = ColumnName (Left f) in
      case Value f of
        None \<Rightarrow> Inl (Panic ''invalid memory address or nil pointer dereference'')
      | Some v \<Rightarrow>
          (case convertOperator (Operator f) (Value_v v) of
             Inl err \<Rightarrow> Inl err
           | Inr (mongoOp, mongoVal) \<Rightarrow>
               if mongoOp = ''$eq'' then Inr [(fieldName, mongoVal)]
               else Inr [(fieldName, VMap [(mongoOp, mongoVal)])]))"

text \<open>
  \<open>buildFilterFromExpr\<close> and \<open>buildLogicalFilter\<close>; \<open>buildClauses\<close> is the loop
  over \<open>f.Nodes\<close> that both logical branches run.
\<close>

fun buildFilterFromExpr :: "FilterExpr \<Rightarrow> bsonM result"
  and buildClauses :: "FilterExpr list \<Rightarrow> val list \<Rightarrow> val list result"
where
  "buildFilterFromExpr NilFilterExpr = Inr []"
| "buildFilterFromExpr (Comparison f) = buildComparisonFilter_mongo f"
| "buildFilterFromExpr (LogicalFilterIR op nodes) =
     (if ToUpper op = ''AND'' then
        (case buildClauses nodes [] of
           Inl err \<Rightarrow> Inl err
         | Inr andClauses \<Rightarrow> Inr [(''$and'', VList andClauses)])
      else if ToUpper op = ''OR'' then
        (case buildClauses nodes [] of
           Inl err \<Rightarrow> Inl err
         | Inr orClauses \<Rightarrow> Inr [(''$or'', VList orClauses)])
      else Inl (Err (''unsupported logical operator: '' @ op)))"
| "buildFilterFromExpr (OtherFilterExpr t) = Inl (Err (''unsupported filter type: '' @ t))"
| "buildClauses [] clauses = Inr clauses"
| "buildClauses (node # nodes) clauses =
     (case buildFilterFromExpr node of
        Inl err \<Rightarrow> Inl err
      | Inr childFilter \<Rightarrow> buildClauses nodes (clauses @ [VMap childFilter]))"

text \<open>The sort loop of \<open>buildFindQuery\<close>; \<open>s.Column\<close> is dereferenced untested.\<close>

fun buildSortDoc :: "SortExpr list \<Rightarrow> (string \<times> int) list \<Rightarrow> (string \<times> int) list result" where
  "buildSortDoc [] sortDoc = Inr sortDoc"
| "buildSortDoc (s # ss) sortDoc =
     (let direction = (if ToLower (Direction s) = ''desc'' then - 1 else 1) in
      case Column s of
        None \<Rightarrow> Inl (Panic ''invalid memory address or nil pointer dereference'')
      | Some c \<Rightarrow>
          let fieldName = (if TableAlias c \<noteq> [] then TableAlias c @ ''.'' @ ColumnName c
                           else ColumnName c)
          in buildSortDoc ss (sortDoc @ [(fieldName, direction)]))"

definition buildFindQuery :: "QueryPlan \<Rightarrow> MongoQuery result" where
  "buildFindQuery plan =
     (case buildFilterFromExpr (Filters plan) of
        Inl err \<Rightarrow> Inl err
      | Inr filterDoc \<Rightarrow>
          let opt = \<lparr>Limit_o = None, Skip_o = None, Sort_o = None\<rparr>;
              opt1 = (if Limit (Pagination plan) > 0
                      then opt\<lparr>Limit_o := Some (Limit (Pagination plan))\<rparr> else opt);
              opt2 = (if Offset (Pagination plan) > 0
                      then opt1\<lparr>Skip_o := Some (Offset (Pagination plan))\<rparr> else opt1)
          in (case (if length (Sort plan) > 0 then
                      (case buildSortDoc (Sort plan) [] of
                         Inl err \<Rightarrow> Inl err
                       | Inr sortDoc \<Rightarrow> Inr (opt2\<lparr>Sort_o := Some sortDoc\<rparr>))
                    else Inr opt2) of
                Inl err \<Rightarrow> Inl err
              | Inr opt3 \<Rightarrow>
                  (case RootModel plan of
                     None \<Rightarrow> Inl (Panic ''invalid memory address or nil pointer dereference'')
                   | Some rootModel \<Rightarrow>
                       Inr \<lparr>Collection = Table rootModel, Operation_m = ''find'', Filter = VMap filterDoc,
                            Pipeline = VNil, Update = VNil, Document = VNil,
                            Options = Some opt3\<rparr>)))"

definition buildInsert_mongo :: "QueryPlan \<Rightarrow> MongoQuery result" where
  "buildInsert_mongo plan =
     (if length (Data plan) = 0 then Inl (Err ''insert data required'')
      else
        let doc = VMap (Data plan) in
        (case RootModel plan of
           None \<Rightarrow> Inl (Panic ''invalid memory address or nil pointer dereference'')
         | Some rootModel \<Rightarrow>
             Inr \<lparr>Collection = Table rootModel, Operation_m = ''insert'', Filter = VNil,
                  Pipeline = VNil, Update = VNil, Document = doc, Options = None\<rparr>))"

definition buildUpdate_mongo :: "QueryPlan \<Rightarrow> MongoQuery result" where
  "buildUpdate_mongo plan =
     (case buildFilterFromExpr (Filters plan) of
        Inl err \<Rightarrow> Inl err
      | Inr filterDoc \<Rightarrow>
          let updateDoc = VMap [(''$set'', VMap (Data plan))] in
          (case RootModel plan of
             None \<Rightarrow> Inl (Panic ''invalid memory address or nil pointer dereference'')
           | Some rootModel \<Rightarrow>
               Inr \<lparr>Collection = Table rootModel, Operation_m = ''update'', Filter = VMap filterDoc,
                    Pipeline = VNil, Update = updateDoc, Document = VNil, Options = None\<rparr>))"

definition buildDelete_mongo :: "QueryPlan \<Rightarrow> MongoQuery result" where
  "buildDelete_mongo plan =
     (case buildFilterFromExpr (Filters plan) of
        Inl err \<Rightarrow> Inl err
      | Inr filterDoc \<Rightarrow>
          (case RootModel plan of
             None \<Rightarrow> Inl (Panic ''invalid memory address or nil pointer dereference'')
           | Some rootModel \<Rightarrow>
               Inr \<lparr>Collection = Table rootModel, Operation_m = ''delete'', Filter = VMap filterDoc,
                    Pipeline = VNil, Update = VNil, Document = VNil, Options = None\<rparr>))"

text \<open>\<open>BuildQuery\<close> of the document builder; its second result is always nil.\<close>

definition BuildQuery_mongo :: "QueryPlan option \<Rightarrow> MongoQuery result" where
  "BuildQuery_mongo planp =
     (case planp of
        None \<Rightarrow> Inl (Panic ''invalid memory address or nil pointer dereference'')
      | Some plan \<Rightarrow>
          if Operation plan = OpSelect then buildFindQuery plan
          else if Operation plan = OpCreate then buildInsert_mongo plan
          else if Operation plan = OpUpdate then buildUpdate_mongo plan
          else if Operation plan = OpDelete then buildDelete_mongo plan
          else Inl (Err (''unsupported operation: '' @ Operation plan)))"

section \<open>Schema inference for the document store\<close>

subsection \<open>Go arithmetic\<close>

text \<open>Division of Go integers truncates toward zero.\<close>

definition goDiv :: "int \<Rightarrow> int \<Rightarrow> int" where
  "goDiv a b = sgn a * sgn b * (\<bar>a\<bar> div \<bar>b\<bar>)"

text \<open>
  A finite \<open>float64\<close> is \<open>F m e\<close>, the number \<open>m * 2 ^ e\<close>. Every operation rounds
  its exact result to 53 significant bits, to nearest and ties to even, which is
  IEEE 754 binary64 arithmetic as long as no result overflows or is subnormal; the
  operands here are \<open>int\<close> counts and the constant \<open>0.1\<close>, whose results stay in
  range.
\<close>

datatype float64 = F int int

function bitLength :: "int \<Rightarrow> nat" where
  "bitLength n = (if n \<le> 0 then 0 else Suc (bitLength (n div 2)))"
  by pat_completeness auto
termination
  by (relation "measure nat") auto

declare bitLength.simps [simp del]

definition round53 :: "int \<Rightarrow> int \<Rightarrow> float64" where
  "round53 m e =
     (let l = bitLength \<bar>m\<bar> in
      if l \<le> 53 then F m e
      else
        let s = l - 53;
            q = \<bar>m\<bar> div 2 ^ s;
            r = \<bar>m\<bar> mod 2 ^ s;
            half = 2 ^ (s - 1);
            q' = (if r > half \<or> (r = half \<and> odd q) then q + 1 else q)
        in F (sgn m * q') (e + int s))"

text \<open>The conversion \<open>float64(n)\<close> of an \<open>int\<close>.\<close>

definition float64_of_int :: "int \<Rightarrow> float64" where
  "float64_of_int n = round53 n 0"

fun float64_mul :: "float64 \<Rightarrow> float64 \<Rightarrow> float64" where
  "float64_mul (F m1 e1) (F m2 e2) = round53 (m1 * m2) (e1 + e2)"

fun float64_gt :: "float64 \<Rightarrow> float64 \<Rightarrow> bool" where
  "float64_gt (F m1 e1) (F m2 e2) =
     (let e = min e1 e2 in m1 * 2 ^ nat (e1 - e) > m2 * 2 ^ nat (e2 - e))"

text \<open>The constant \<open>0.1\<close> as a \<open>float64\<close>: \<open>0x3FB999999999999A\<close>.\<close>

definition float64_0_1 :: float64 where
  "float64_0_1 = F 3602879701896397 (- 55)"

subsection \<open>Sampled values and their types\<close>

text \<open>
  The dynamic types that \<open>inferTypeFromValue\<close> tells apart. \<open>BNamed k\<close> is a value
  of any other type, of which only the \<open>reflect\<close> kind matters.
\<close>

datatype Kind = KInt | KFloat | KBool | KString | KOther

datatype bsonval =
    BNil
  | BBool bool
  | BInt int
  | BFloat
  | BString string
  | BObjectID
  | BDateTime
  | BTimestamp
  | BDoc "(string \<times> bsonval) list"
  | BArray "bsonval list"
  | BBinary
  | BNamed Kind

record FieldStats =
  TypeCounts :: "(FieldType \<times> int) list"
  TotalCount :: int
  NullCount :: int
  SampleValues :: "bsonval list"

text \<open>\<open>strings.Split\<close> with a separator of one character.\<close>

fun Split :: "string \<Rightarrow> char \<Rightarrow> string list" where
  "Split [] sep = [[]]"
| "Split (c # cs) sep =
     (if c = sep then [] # Split cs sep
      else (case Split cs sep of p # ps \<Rightarrow> (c # p) # ps | [] \<Rightarrow> [[c]]))"

definition isUUID :: "string \<Rightarrow> bool" where
  "isUUID s = (let parts = Split s CHR ''-'' in length parts = 5 \<and> length s = 36)"

text \<open>
  \<open>isDateString\<close>; \<open>parses layout s\<close> stands for \<open>time.Parse(layout, s)\<close> of the Go
  library returning no error.
\<close>

definition isDateString :: "(string \<Rightarrow> string \<Rightarrow> bool) \<Rightarrow> string \<Rightarrow> bool" where
  "isDateString parses s =
     (parses ''2006-01-02'' s \<or> parses ''2006-01-02T15:04:05Z'' s
      \<or> parses ''2006-01-02T15:04:05.000Z'' s \<or> parses ''2006-01-02 15:04:05'' s)"

definition inferTypeFromValue :: "(string \<Rightarrow> string \<Rightarrow> bool) \<Rightarrow> bsonval \<Rightarrow> FieldType" where
  "inferTypeFromValue parses v =
     (case v of
        BNil \<Rightarrow> TypeString
      | BBool b \<Rightarrow> TypeBoolean
      | BInt i \<Rightarrow> TypeInteger
      | BFloat \<Rightarrow> TypeDecimal
      | BString s \<Rightarrow>
          if isUUID s then TypeUUID
          else if isDateString parses s then TypeTimestamp
          else TypeString
      | BObjectID \<Rightarrow> TypeUUID
      | BDateTime \<Rightarrow> TypeTimestamp
      | BTimestamp \<Rightarrow> TypeTimestamp
      | BDoc d \<Rightarrow> TypeJSON
      | BArray a \<Rightarrow> TypeJSON
      | BBinary \<Rightarrow> TypeBinary
      | BNamed k \<Rightarrow>
          (case k of
             KInt \<Rightarrow> TypeInteger
           | KFloat \<Rightarrow> TypeDecimal
           | KBool \<Rightarrow> TypeBoolean
           | KString \<Rightarrow> TypeString
           | KOther \<Rightarrow> TypeString))"

subsection \<open>Resolution of a field's type and nullability\<close>

text \<open>
  \<open>strconv.Atoi\<close> returning no error: an optional sign, then one or more decimal
  digits, whose value fits a 64-bit \<open>int\<close>.
\<close>

definition isDigit :: "char \<Rightarrow> bool" where
  "isDigit c = ((48::nat) \<le> of_char c \<and> of_char c \<le> (57::nat))"

definition digitsValue :: "string \<Rightarrow> int" where
  "digitsValue s = foldl (\<lambda>n c. 10 * n + (int (of_char c) - 48)) 0 s"

definition AtoiOk :: "string \<Rightarrow> bool" where
  "AtoiOk s =
     (let neg = (s \<noteq> [] \<and> hd s = CHR ''-'');
          digits = (if s \<noteq> [] \<and> (hd s = CHR ''-'' \<or> hd s = CHR ''+'') then tl s else s)
      in digits \<noteq> [] \<and> list_all isDigit digits
         \<and> (if neg then digitsValue digits \<le> 2 ^ 63 else digitsValue digits < 2 ^ 63))"

fun areAllNumericStrings :: "bsonval list \<Rightarrow> bool" where
  "areAllNumericStrings [] = True"
| "areAllNumericStrings (v # vs) =
     (case v of
        BString str \<Rightarrow> if \<not> AtoiOk str then False else areAllNumericStrings vs
      | _ \<Rightarrow> areAllNumericStrings vs)"

text \<open>
  The loop of \<open>ResolveFieldType\<close> over \<open>stats.TypeCounts\<close>, in the order in which
  \<open>range\<close> enumerates the map: a type replaces the current one only with a strictly
  larger count.
\<close>

fun mostCommon :: "(FieldType \<times> int) list \<Rightarrow> int \<times> FieldType \<Rightarrow> int \<times> FieldType" where
  "mostCommon [] (maxCount, mostCommonType) = (maxCount, mostCommonType)"
| "mostCommon ((fieldType, count) # rest) (maxCount, mostCommonType) =
     (if count > maxCount then mostCommon rest (count, fieldType)
      else mostCommon rest (maxCount, mostCommonType))"

text \<open>\<open>stats.TypeCounts[t]\<close>: zero for a type that is not a key.\<close>

definition typeCount :: "(FieldType \<times> int) list \<Rightarrow> FieldType \<Rightarrow> int" where
  "typeCount counts t = (case map_of counts t of Some c \<Rightarrow> c | None \<Rightarrow> 0)"

definition isNullableOf :: "FieldStats \<Rightarrow> bool" where
  "isNullableOf stats =
     (let nullabilityThreshold = float64_mul (float64_of_int (TotalCount stats)) float64_0_1
      in float64_gt (float64_of_int (NullCount stats)) nullabilityThreshold)"

definition ResolveFieldType :: "FieldStats option \<Rightarrow> FieldType \<times> bool" where
  "ResolveFieldType statsp =
     (case statsp of
        None \<Rightarrow> (TypeString, True)
      | Some stats \<Rightarrow>
          if length (TypeCounts stats) = 0 then (TypeString, True)
          else
            let (maxCount, mostCommonType) = mostCommon (TypeCounts stats) (0, []);
                isNullable = isNullableOf stats
            in if maxCount < goDiv (TotalCount stats) 2 then
                 (if typeCount (TypeCounts stats) TypeInteger > 0
                     \<and> typeCount (TypeCounts stats) TypeString > 0 then
                    (if areAllNumericStrings (SampleValues stats)
                     then (TypeInteger, isNullable)
                     else (mostCommonType, isNullable))
                  else (mostCommonType, isNullable))
               else (mostCommonType, isNullable))"

section \<open>Expected forms and inputs of the scenarios\<close>

text \<open>The cast suffix that the specification gives for each cast type.\<close>

definition spec_cast :: "FieldType \<Rightarrow> string" where
  "spec_cast dt =
     (if dt = ''uuid'' then ''::uuid''
      else if dt = ''json'' then ''::jsonb''
      else if dt = ''binary'' then ''::bytea''
      else if dt = ''timestamp'' then ''::timestamp''
      else [])"

definition ordersRoot :: ModelRef where
  "ordersRoot = \<lparr>Table = ''orders'', Alias = ''t0'',
       PrimaryKey = \<lparr>TableAlias = ''t0'', ColumnName = ''id'', DataType = TypeUUID\<rparr>\<rparr>"

definition usersRoot :: ModelRef where
  "usersRoot = \<lparr>Table = ''users'', Alias = ''t0'',
       PrimaryKey = \<lparr>TableAlias = ''t0'', ColumnName = ''id'', DataType = TypeInteger\<rparr>\<rparr>"

text \<open>The equality filter of the UUID scenario and its select plan.\<close>

definition uuidFilter :: ComparisonFilterIR where
  "uuidFilter =
     \<lparr>Left = \<lparr>TableAlias = ''t0'', ColumnName = ''user_id'', DataType = TypeUUID\<rparr>,
      Operator = OpEqual,
      Value = Some \<lparr>Value_v = VStr ''11111111-1111-1111-1111-111111111111''\<rparr>\<rparr>"

definition uuidPlan :: QueryPlan where
  "uuidPlan =
     \<lparr>Operation = [], RootModel = Some ordersRoot, Select = [],
      Filters = Comparison uuidFilter, GroupBy = [], Aggregates = [], Sort = [],
      Pagination = \<lparr>Limit = 100, Offset = 0\<rparr>, Data = [], ID = VNil\<rparr>"

text \<open>An update plan that carries both an identifier and filters.\<close>

definition updateBothPlan :: QueryPlan where
  "updateBothPlan =
     \<lparr>Operation = OpUpdate, RootModel = Some usersRoot, Select = [],
      Filters = Comparison uuidFilter, GroupBy = [], Aggregates = [], Sort = [],
      Pagination = \<lparr>Limit = 100, Offset = 0\<rparr>, Data = [(''name'', VStr ''X'')], ID = VInt 7\<rparr>"

text \<open>
  The placeholders \<open>$n\<close> of a statement, from left to right: the numbers written
  after each \<open>$\<close> that a digit follows.
\<close>

fun placeholders :: "string \<Rightarrow> nat list" where
  "placeholders [] = []"
| "placeholders (c # cs) =
     (if c = CHR ''$'' \<and> takeWhile isDigit cs \<noteq> []
      then nat (digitsValue (takeWhile isDigit cs)) # placeholders cs
      else placeholders cs)"

text \<open>A select plan with a \<open>between\<close> filter on an integer column.\<close>

definition betweenPlan :: QueryPlan where
  "betweenPlan =
     \<lparr>Operation = OpSelect, RootModel = Some ordersRoot, Select = [],
      Filters = Comparison
        \<lparr>Left = \<lparr>TableAlias = ''t0'', ColumnName = ''amount'', DataType = TypeInteger\<rparr>,
         Operator = OpBetween, Value = Some \<lparr>Value_v = VList [VInt 10, VInt 20]\<rparr>\<rparr>,
      GroupBy = [], Aggregates = [], Sort = [],
      Pagination = \<lparr>Limit = 100, Offset = 0\<rparr>, Data = [], ID = VNil\<rparr>"

text \<open>Update and delete plans that carry an identifier and no filters.\<close>

definition updateByIdPlan :: QueryPlan where
  "updateByIdPlan =
     \<lparr>Operation = OpUpdate, RootModel = Some usersRoot, Select = [],
      Filters = NilFilterExpr, GroupBy = [], Aggregates = [], Sort = [],
      Pagination = \<lparr>Limit = 100, Offset = 0\<rparr>, Data = [(''name'', VStr ''X'')], ID = VInt 7\<rparr>"

definition deleteByIdPlan :: QueryPlan where
  "deleteByIdPlan =
     \<lparr>Operation = OpDelete, RootModel = Some usersRoot, Select = [],
      Filters = NilFilterExpr, GroupBy = [], Aggregates = [], Sort = [],
      Pagination = \<lparr>Limit = 100, Offset = 0\<rparr>, Data = [], ID = VInt 7\<rparr>"

text \<open>The plan of the scenario that groups orders by status and counts them.\<close>

definition groupCountPlan :: QueryPlan where
  "groupCountPlan =
     \<lparr>Operation = OpSelect, RootModel = Some ordersRoot, Select = [],
      Filters = NilFilterExpr,
      GroupBy = [\<lparr>Column_g = \<lparr>TableAlias = ''t0'', ColumnName = ''status'',
                                DataType = TypeString\<rparr>\<rparr>],
      Aggregates = [\<lparr>Function = AggCountFn, Column_a = None, Alias_a = ''n''\<rparr>], Sort = [],
      Pagination = \<lparr>Limit = 100, Offset = 0\<rparr>, Data = [], ID = VNil\<rparr>"

text \<open>An \<open>is_null\<close> and a \<open>not_null\<close> comparison, which carry no value.\<close>

definition isNullFilter :: ComparisonFilterIR where
  "isNullFilter =
     \<lparr>Left = \<lparr>TableAlias = ''t0'', ColumnName = ''deleted_at'', DataType = TypeTimestamp\<rparr>,
      Operator = OpIsNull, Value = None\<rparr>"

definition notNullFilter :: ComparisonFilterIR where
  "notNullFilter =
     \<lparr>Left = \<lparr>TableAlias = ''t0'', ColumnName = ''deleted_at'', DataType = TypeTimestamp\<rparr>,
      Operator = OpNotNull, Value = None\<rparr>"

text \<open>
  A create plan on \<open>users\<close> whose data map is enumerated in the given order, and the
  two enumerations of the map \<open>{email: "a@b", name: "A"}\<close>.
\<close>

definition createPlan :: "(string \<times> val) list \<Rightarrow> QueryPlan" where
  "createPlan d =
     \<lparr>Operation = OpCreate, RootModel = Some usersRoot, Select = [],
      Filters = NilFilterExpr, GroupBy = [], Aggregates = [], Sort = [],
      Pagination = \<lparr>Limit = 100, Offset = 0\<rparr>, Data = d, ID = VNil\<rparr>"

definition emailFirst :: "(string \<times> val) list" where
  "emailFirst = [(''email'', VStr ''a@b''), (''name'', VStr ''A'')]"

definition nameFirst :: "(string \<times> val) list" where
  "nameFirst = [(''name'', VStr ''A''), (''email'', VStr ''a@b'')]"

text \<open>
  The placeholders and the assignments that number the entries of an enumerated data
  map from \<open>n + 1\<close> on.
\<close>

fun placeholderList :: "int \<Rightarrow> (string \<times> val) list \<Rightarrow> string list" where
  "placeholderList n [] = []"
| "placeholderList n (kv # rest) = (''$'' @ showInt (n + 1)) # placeholderList (n + 1) rest"

fun setClauses :: "int \<Rightarrow> (string \<times> val) list \<Rightarrow> string list" where
  "setClauses n [] = []"
| "setClauses n ((field, v) # rest) =
     (field @ '' = $'' @ showInt (n + 1)) # setClauses (n + 1) rest"

text \<open>
  Field statistics evenly split between string and integer, with the numeric string
  samples \<open>"12"\<close> and \<open>"34"\<close>, as \<open>range\<close> enumerates the string count first.
\<close>

definition evenSplitStringFirst :: FieldStats where
  "evenSplitStringFirst =
     \<lparr>TypeCounts = [(TypeString, 50), (TypeInteger, 50)], TotalCount = 100, NullCount = 0,
      SampleValues = [BString ''12'', BString ''34'']\<rparr>"

definition evenSplitIntegerFirst :: FieldStats where
  "evenSplitIntegerFirst =
     \<lparr>TypeCounts = [(TypeInteger, 50), (TypeString, 50)], TotalCount = 100, NullCount = 0,
      SampleValues = [BString ''12'', BString ''34'']\<rparr>"



text \<open>
  The comparisons of a filter tree, from left to right, and the text that the
  specification gives a comparison whose placeholder has the number \<open>n\<close>: the cast
  suffix after the placeholder for \<open>=\<close>, \<open>!=\<close>, \<open>in\<close> and \<open>not_in\<close>, the bare
  placeholder for \<open>>\<close>, \<open>>=\<close>, \<open><\<close> and \<open><=\<close>.
\<close>

fun comparisons :: "FilterExpr \<Rightarrow> ComparisonFilterIR list" where
  "comparisons NilFilterExpr = []"
| "comparisons (Comparison f) = [f]"
| "comparisons (LogicalFilterIR op nodes) = concat (map comparisons nodes)"
| "comparisons (OtherFilterExpr t) = []"

definition expectedComparison :: "int \<Rightarrow> ComparisonFilterIR \<Rightarrow> string" where
  "expectedComparison n f =
     (let col = colNameOf (Left f);
          placeholder = ''$'' @ showInt n;
          suffix = spec_cast (DataType (Left f))
      in if Operator f = OpEqual then col @ '' = '' @ placeholder @ suffix
         else if Operator f = OpNotEqual then col @ '' != '' @ placeholder @ suffix
         else if Operator f = OpIn then col @ '' = ANY('' @ placeholder @ suffix @ '')''
         else if Operator f = OpNotIn then col @ '' != ALL('' @ placeholder @ suffix @ '')''
         else if Operator f = OpGT then col @ '' > '' @ placeholder
         else if Operator f = OpGTE then col @ '' >= '' @ placeholder
         else if Operator f = OpLT then col @ '' < '' @ placeholder
         else if Operator f = OpLTE then col @ '' <= '' @ placeholder
         else [])"

text \<open>
  The comparisons that the cast rule speaks of: an operator that takes the cast on a
  column of a cast type, or a magnitude operator on any column.
\<close>

definition castRuleApplies :: "ComparisonFilterIR \<Rightarrow> bool" where
  "castRuleApplies f =
     ((Operator f \<in> {OpEqual, OpNotEqual, OpIn, OpNotIn}
        \<and> DataType (Left f) \<in> {TypeUUID, TypeJSON, TypeBinary, TypeTimestamp})
      \<or> Operator f \<in> {OpGT, OpGTE, OpLT, OpLTE})"

text \<open>
  What may follow the text of a comparison in a statement: nothing, a blank, a closing
  parenthesis or the final semicolon, so that neither a digit nor a cast follows.
\<close>

definition endsToken :: "string \<Rightarrow> bool" where
  "endsToken post =
     (post = [] \<or> hd post = CHR '' '' \<or> hd post = CHR '')'' \<or> hd post = CHR '';'')"

text \<open>
  \<open>placed qb qb' sql f\<close>: the text \<open>sql\<close>, compiled from the state \<open>qb\<close> to the state
  \<open>qb'\<close>, holds the expected text of \<open>f\<close> for a placeholder numbered after
  \<open>qb\<close>, whose parameter in \<open>qb'\<close> is the value of \<open>f\<close>.
\<close>

definition placed :: "QueryBuilder \<Rightarrow> QueryBuilder \<Rightarrow> string \<Rightarrow> ComparisonFilterIR \<Rightarrow> bool" where
  "placed qb qb' sql f =
     (\<exists>n pre post v. 0 < n \<and> paramCount qb < n \<and> n \<le> paramCount qb'
        \<and> sql = pre @ expectedComparison n f @ post \<and> endsToken post
        \<and> Value f = Some v \<and> params qb' ! nat (n - 1) = Value_v v)"

text \<open>The counter of a builder is the number of its parameters.\<close>

definition aligned :: "QueryBuilder \<Rightarrow> bool" where
  "aligned qb = (int (length (params qb)) = paramCount qb)"

text \<open>
  \<open>treeOk qb qb'\<close>: the state \<open>qb'\<close> is aligned and its parameters extend those of
  \<open>qb\<close>.
\<close>

definition treeOk :: "QueryBuilder \<Rightarrow> QueryBuilder \<Rightarrow> bool" where
  "treeOk qb qb' = (aligned qb' \<and> (\<exists>extra. params qb' = params qb @ extra))"

text \<open>A select plan whose filter nests the UUID comparison under \<open>AND\<close> and \<open>NOT\<close>.\<close>

definition nestedPlan :: QueryPlan where
  "nestedPlan =
     \<lparr>Operation = OpSelect, RootModel = Some ordersRoot, Select = [],
      Filters = LogicalFilterIR ''AND''
        [Comparison
           \<lparr>Left = \<lparr>TableAlias = ''t0'', ColumnName = ''amount'', DataType = TypeInteger\<rparr>,
            Operator = OpGT, Value = Some \<lparr>Value_v = VInt 10\<rparr>\<rparr>,
         LogicalFilterIR ''NOT'' [Comparison uuidFilter]],
      GroupBy = [], Aggregates = [], Sort = [],
      Pagination = \<lparr>Limit = 100, Offset = 0\<rparr>, Data = [], ID = VNil\<rparr>"

text \<open>An update plan on \<open>users\<close> that selects by filters.\<close>

definition updateByFilterPlan :: QueryPlan where
  "updateByFilterPlan =
     \<lparr>Operation = OpUpdate, RootModel = Some usersRoot, Select = [],
      Filters = Comparison uuidFilter, GroupBy = [], Aggregates = [], Sort = [],
      Pagination = \<lparr>Limit = 100, Offset = 0\<rparr>, Data = [(''name'', VStr ''X'')], ID = VNil\<rparr>"

section \<open>Properties of the relational builder\<close>

lemma TrimPrefix_dollar: "TrimPrefix (''$'' @ s) ''$'' = s"
  by (simp add: TrimPrefix_def)

lemma addTypeCast_cast:
  "dt \<in> {TypeUUID, TypeJSON, TypeBinary, TypeTimestamp} \<Longrightarrow>
   addTypeCast (''$'' @ s) dt = ''$'' @ s @ spec_cast dt"
  using TrimPrefix_dollar[of s]
  by (auto simp: addTypeCast_def getPostgreSQLType_def spec_cast_def Let_def)

lemma uuid_scenario:
  "fst (BuildQuery NewQueryBuilder (Some uuidPlan)) =
     Inr (''SELECT * FROM orders t0 WHERE t0.user_id = $1::uuid LIMIT $2 OFFSET $3;'',
          [VStr ''11111111-1111-1111-1111-111111111111'', VInt 100, VInt 0])"
  by code_simp

lemma updateSets_state:
  "params (snd (updateSets qb d sets)) = params qb @ map snd d
   \<and> paramCount (snd (updateSets qb d sets)) = paramCount qb + int (length d)"
  by (induction qb d sets rule: updateSets.induct) (simp_all add: Let_def)

lemma buildSelector_id:
  "ID plan \<noteq> VNil \<Longrightarrow>
   buildSelector qb plan rootModel opname =
     (Inr (''WHERE '' @ ColumnName (PrimaryKey rootModel) @ '' = $'' @ showInt (paramCount qb + 1)),
      qb\<lparr>paramCount := paramCount qb + 1, params := params qb @ [ID plan]\<rparr>)"
  by (simp add: buildSelector_def Let_def)

lemma buildSelector_filters_irrelevant:
  "ID plan \<noteq> VNil \<Longrightarrow>
   buildSelector qb (plan\<lparr>Filters := fe\<rparr>) rootModel opname = buildSelector qb plan rootModel opname"
  by (simp add: buildSelector_def Let_def)

lemma reset_builder: "(qb::QueryBuilder)\<lparr>params := [], paramCount := 0\<rparr> = \<lparr>params = [], paramCount = 0\<rparr>"
  by (cases qb) simp

lemma buildDelete_filters_irrelevant:
  "ID plan \<noteq> VNil \<Longrightarrow> buildDelete qb (plan\<lparr>Filters := fe\<rparr>) rootModel = buildDelete qb plan rootModel"
  by (simp add: buildDelete_def buildSelector_filters_irrelevant)

lemma buildUpdate_filters_irrelevant:
  "ID plan \<noteq> VNil \<Longrightarrow> buildUpdate qb (plan\<lparr>Filters := fe\<rparr>) rootModel = buildUpdate qb plan rootModel"
  by (simp add: buildUpdate_def buildSelector_filters_irrelevant Let_def split: prod.splits)

lemma showInt_1: "showInt 1 = ''1''"
  by (simp add: showInt_def showNat.simps digit_def)

text \<open>
  C10. For an update or delete plan with both \<open>plan.ID\<close> and \<open>plan.Filters\<close> set,
  the selector is \<open>WHERE <primary key> = $n\<close> with \<open>plan.ID\<close> bound as the last
  parameter: a delete is \<open>DELETE FROM t WHERE pk = $1;\<close> with the parameter list
  \<open>[plan.ID]\<close>, an update with data has the assignments of the data followed by
  the selector and the parameters of the data followed by \<open>plan.ID\<close>, and the
  result is the same whatever the filters are.
\<close>

theorem id_selector_precedence:
  assumes "RootModel plan = Some rootModel" and "ID plan \<noteq> VNil" and "Filters plan \<noteq> NilFilterExpr"
  shows "(Operation plan = OpDelete \<longrightarrow>
           fst (BuildQuery qb (Some plan)) =
             Inr (''DELETE FROM '' @ Table rootModel @ '' WHERE '' @ ColumnName (PrimaryKey rootModel)
                  @ '' = $1;'', [ID plan]))
       \<and> (Operation plan = OpUpdate \<and> Data plan \<noteq> [] \<longrightarrow>
           fst (BuildQuery qb (Some plan)) =
             Inr (''UPDATE '' @ Table rootModel @ '' SET ''
                  @ join (fst (updateSets \<lparr>params = [], paramCount = 0\<rparr> (Data plan) [])) '', ''
                  @ '' WHERE '' @ ColumnName (PrimaryKey rootModel) @ '' = $''
                  @ showInt (int (length (Data plan)) + 1) @ '' RETURNING *;'',
                  map snd (Data plan) @ [ID plan]))
       \<and> (Operation plan = OpUpdate \<or> Operation plan = OpDelete \<longrightarrow>
           BuildQuery qb (Some (plan\<lparr>Filters := fe\<rparr>)) = BuildQuery qb (Some plan))"
proof (intro conjI impI)
  assume "Operation plan = OpDelete"
  then show "fst (BuildQuery qb (Some plan)) =
       Inr (''DELETE FROM '' @ Table rootModel @ '' WHERE '' @ ColumnName (PrimaryKey rootModel)
            @ '' = $1;'', [ID plan])"
    using assms(1,2)
    by (simp add: BuildQuery_def buildDelete_def buildSelector_id Let_def showInt_1)
next
  assume a: "Operation plan = OpUpdate \<and> Data plan \<noteq> []"
  obtain sets qb' where u: "updateSets \<lparr>params = [], paramCount = 0\<rparr> (Data plan) [] = (sets, qb')"
    by (cases "updateSets \<lparr>params = [], paramCount = 0\<rparr> (Data plan) []") 
  have st: "params qb' = map snd (Data plan)" "paramCount qb' = int (length (Data plan))"
    using updateSets_state[of "\<lparr>params = [], paramCount = 0\<rparr>" "Data plan" "[]"] u by simp_all
  show "fst (BuildQuery qb (Some plan)) =
       Inr (''UPDATE '' @ Table rootModel @ '' SET ''
            @ join (fst (updateSets \<lparr>params = [], paramCount = 0\<rparr> (Data plan) [])) '', ''
            @ '' WHERE '' @ ColumnName (PrimaryKey rootModel) @ '' = $''
            @ showInt (int (length (Data plan)) + 1) @ '' RETURNING *;'',
            map snd (Data plan) @ [ID plan])"
    using assms(1,2) a u st
    by (simp add: BuildQuery_def buildUpdate_def buildSelector_id Let_def reset_builder)
next
  assume "Operation plan = OpUpdate \<or> Operation plan = OpDelete"
  then show "BuildQuery qb (Some (plan\<lparr>Filters := fe\<rparr>)) = BuildQuery qb (Some plan)"
    using assms(1,2)
    by (auto simp: BuildQuery_def Let_def buildUpdate_filters_irrelevant
        buildDelete_filters_irrelevant)
qed

theorem id_selector_precedence_witness:
  "RootModel updateBothPlan = Some usersRoot \<and> ID updateBothPlan \<noteq> VNil
   \<and> Filters updateBothPlan \<noteq> NilFilterExpr \<and> Operation updateBothPlan = OpUpdate
   \<and> Data updateBothPlan \<noteq> []
   \<and> fst (BuildQuery NewQueryBuilder (Some updateBothPlan)) =
       Inr (''UPDATE users SET name = $1 WHERE id = $2 RETURNING *;'', [VStr ''X'', VInt 7])"
proof -
  have h: "RootModel updateBothPlan = Some usersRoot" "ID updateBothPlan \<noteq> VNil"
    "Filters updateBothPlan \<noteq> NilFilterExpr"
    by (simp_all add: updateBothPlan_def)
  show ?thesis
    using h id_selector_precedence[OF h, of NewQueryBuilder]
    by (simp add: updateBothPlan_def usersRoot_def showInt_def showNat.simps digit_def Let_def)
qed

text \<open>
  C1. On the select plan with a \<open>between\<close> filter the builder binds the pair as one
  parameter and does not advance the counter past \<open>$n+1\<close>: the statement has the four
  placeholders \<open>$1\<close>, \<open>$2\<close>, \<open>$2\<close>, \<open>$3\<close> and the parameter list has three
  values, the first of which is the whole pair.
\<close>

theorem between_placeholders_exceed_params:
  "fst (BuildQuery NewQueryBuilder (Some betweenPlan)) =
     Inr (''SELECT * FROM orders t0 WHERE t0.amount BETWEEN $1 AND $2 LIMIT $2 OFFSET $3;'',
          [VList [VInt 10, VInt 20], VInt 100, VInt 0])
   \<and> placeholders
        ''SELECT * FROM orders t0 WHERE t0.amount BETWEEN $1 AND $2 LIMIT $2 OFFSET $3;''
       = [1, 2, 2, 3]
   \<and> length [VList [VInt 10, VInt 20], VInt 100, VInt 0] = 3"
  by code_simp

lemma insertFields_result:
  "insertFields qb d fs ps =
     (fs @ map fst d, ps @ placeholderList (paramCount qb) d,
      qb\<lparr>paramCount := paramCount qb + int (length d), params := params qb @ map snd d\<rparr>)"
proof (induction qb d fs ps rule: insertFields.induct)
  case (1 qb fieldNames placeholders)
  show ?case by simp
next
  case (2 qb field v rest fieldNames placeholders)
  then show ?case by (simp add: Let_def add.commute add.left_commute)
qed

lemma updateSets_clauses:
  "fst (updateSets qb d sets) = sets @ setClauses (paramCount qb) d"
  by (induction qb d sets rule: updateSets.induct) (simp_all add: Let_def)

lemma data_update_reads:
  "Filters (plan\<lparr>Data := d\<rparr>) = Filters plan"
  "GroupBy (plan\<lparr>Data := d\<rparr>) = GroupBy plan"
  "Sort (plan\<lparr>Data := d\<rparr>) = Sort plan"
  "buildSelectClause (plan\<lparr>Data := d\<rparr>) = buildSelectClause plan"
  "buildGroupByClause (plan\<lparr>Data := d\<rparr>) = buildGroupByClause plan"
  "buildOrderByClause (plan\<lparr>Data := d\<rparr>) = buildOrderByClause plan"
  "buildPaginationClause qb (plan\<lparr>Data := d\<rparr>) = buildPaginationClause qb plan"
  by (simp_all add: buildSelectClause_def buildGroupByClause_def buildOrderByClause_def
      buildPaginationClause_def)

lemma buildSelect_data_irrelevant:
  "buildSelect qb (plan\<lparr>Data := d\<rparr>) rootModel = buildSelect qb plan rootModel"
  unfolding buildSelect_def data_update_reads ..

lemma buildDelete_data_irrelevant:
  "buildDelete qb (plan\<lparr>Data := d\<rparr>) rootModel = buildDelete qb plan rootModel"
  by (simp add: buildDelete_def buildSelector_def)

lemma comparison_params_grow:
  "buildComparisonFilter qb f = (r, qb') \<Longrightarrow> \<exists>extra. params qb' = params qb @ extra"
  by (auto simp: buildComparisonFilter_def bindParam_def Let_def
      split: if_splits option.splits val.splits)

lemma filter_params_grow:
  "buildFilterExpression qb fe = (r, qb') \<Longrightarrow> \<exists>extra. params qb' = params qb @ extra"
  and "buildNodes qb nodes parts = (rs, qb') \<Longrightarrow> \<exists>extra. params qb' = params qb @ extra"
proof (induction qb fe and qb nodes parts arbitrary: r qb' and rs qb'
    rule: buildFilterExpression_buildNodes.induct)
  case (1 qb e)
  then show ?case using comparison_params_grow[of qb e r qb'] by simp
next
  case (2 qb op nodes)
  show ?case
  proof (cases "length nodes = 0")
    case True
    then show ?thesis using "2.prems" by simp
  next
    case False
    obtain x qb1 where b: "buildNodes qb nodes [] = (x, qb1)" by (cases "buildNodes qb nodes []")
    have "qb1 = qb'" using "2.prems" False b by (auto split: sum.splits if_splits)
    then show ?thesis using "2.IH"[OF False b] by simp
  qed
next
  case (3 qb t)
  then show ?case by simp
next
  case (4 qb)
  then show ?case by simp
next
  case (5 qb parts)
  then show ?case by simp
next
  case (6 qb node nodes parts)
  obtain x qb1 where b: "buildFilterExpression qb node = (x, qb1)"
    by (cases "buildFilterExpression qb node")
  obtain e1 where e1: "params qb1 = params qb @ e1" using "6.IH"(1)[OF b] by blast
  show ?case
  proof (cases x)
    case (Inl err)
    then have "qb' = qb1" using "6.prems" b by simp
    then show ?thesis using e1 by simp
  next
    case (Inr nodeSql)
    then have "buildNodes qb1 nodes (parts @ [nodeSql]) = (rs, qb')" using "6.prems" b by simp
    then obtain e2 where "params qb' = params qb1 @ e2"
      using "6.IH"(2)[OF b[symmetric] Inr] by blast
    then show ?thesis using e1 by simp
  qed
qed

lemma where_params_grow:
  "buildWhereClause qb fe = (r, qb') \<Longrightarrow> \<exists>extra. params qb' = params qb @ extra"
proof -
  assume a: "buildWhereClause qb fe = (r, qb')"
  obtain x qb1 where b: "buildFilterExpression qb fe = (x, qb1)"
    by (cases "buildFilterExpression qb fe")
  have "qb1 = qb'" using a b by (cases x) (auto simp: buildWhereClause_def)
  then show ?thesis using filter_params_grow(1)[OF b] by simp
qed

lemma updateSets_final:
  "snd (updateSets \<lparr>params = [], paramCount = 0\<rparr> d []) =
     \<lparr>params = map snd d, paramCount = int (length d)\<rparr>"
  using updateSets_state[of "\<lparr>params = [], paramCount = 0\<rparr>" d "[]"]
  by (cases "snd (updateSets \<lparr>params = [], paramCount = 0\<rparr> d [])") simp

lemma update_by_filters:
  assumes "RootModel plan = Some rootModel" and "Operation plan = OpUpdate"
    and "Data plan \<noteq> []" and "ID plan = VNil" and "Filters plan \<noteq> NilFilterExpr"
  shows "fst (BuildQuery qb (Some plan)) =
     (case buildWhereClause \<lparr>params = map snd (Data plan), paramCount = int (length (Data plan))\<rparr>
             (Filters plan) of
        (Inl err, qb') \<Rightarrow> Inl err
      | (Inr wherePart, qb') \<Rightarrow>
          Inr (''UPDATE '' @ Table rootModel @ '' SET '' @ join (setClauses 0 (Data plan)) '', ''
               @ '' '' @ wherePart @ '' RETURNING *;'', params qb'))"
proof -
  obtain sets qb1 where u: "updateSets \<lparr>params = [], paramCount = 0\<rparr> (Data plan) [] = (sets, qb1)"
    by (cases "updateSets \<lparr>params = [], paramCount = 0\<rparr> (Data plan) []")
  have q: "qb1 = \<lparr>params = map snd (Data plan), paramCount = int (length (Data plan))\<rparr>"
    using updateSets_final[of "Data plan"] u by simp
  have cl: "sets = setClauses 0 (Data plan)"
    using updateSets_clauses[of "\<lparr>params = [], paramCount = 0\<rparr>" "Data plan" "[]"] u by simp
  show ?thesis
    using assms u
    by (simp add: BuildQuery_def buildUpdate_def buildSelector_def Let_def reset_builder
        flip: q cl split: prod.splits sum.splits)
qed

text \<open>
  C2, as the code has it. The builder does not sort \<open>data\<close>: a create emits the
  field list, the placeholders \<open>$1 ..\<close> and the parameters in the order in which the
  data map is enumerated; an update emits its assignments in that order, followed by
  the selector by identifier or, without identifier, by the filters compiled after the
  data, and the parameters of every update start with the values of the data in that
  order; a select or a delete does not read the data at all.
\<close>

theorem output_follows_data_enumeration:
  assumes "RootModel plan = Some rootModel"
  shows "(Operation plan = OpCreate \<and> Data plan \<noteq> [] \<longrightarrow>
           fst (BuildQuery qb (Some plan)) =
             Inr (''INSERT INTO '' @ Table rootModel @ '' ('' @ join (map fst (Data plan)) '', ''
                  @ '') VALUES ('' @ join (placeholderList 0 (Data plan)) '', ''
                  @ '') RETURNING *;'',
                  map snd (Data plan)))
       \<and> (Operation plan = OpUpdate \<and> Data plan \<noteq> [] \<and> ID plan \<noteq> VNil \<longrightarrow>
           fst (BuildQuery qb (Some plan)) =
             Inr (''UPDATE '' @ Table rootModel @ '' SET '' @ join (setClauses 0 (Data plan)) '', ''
                  @ '' WHERE '' @ ColumnName (PrimaryKey rootModel) @ '' = $''
                  @ showInt (int (length (Data plan)) + 1) @ '' RETURNING *;'',
                  map snd (Data plan) @ [ID plan]))
       \<and> (Operation plan = OpUpdate \<and> Data plan \<noteq> [] \<and> ID plan = VNil
            \<and> Filters plan \<noteq> NilFilterExpr \<longrightarrow>
           fst (BuildQuery qb (Some plan)) =
             (case buildWhereClause
                     \<lparr>params = map snd (Data plan), paramCount = int (length (Data plan))\<rparr>
                     (Filters plan) of
                (Inl err, qb') \<Rightarrow> Inl err
              | (Inr wherePart, qb') \<Rightarrow>
                  Inr (''UPDATE '' @ Table rootModel @ '' SET ''
                       @ join (setClauses 0 (Data plan)) '', '' @ '' '' @ wherePart
                       @ '' RETURNING *;'', params qb')))
       \<and> (Operation plan = OpUpdate \<and> fst (BuildQuery qb (Some plan)) = Inr (sql, ps) \<longrightarrow>
           (\<exists>extra. ps = map snd (Data plan) @ extra))
       \<and> (Operation plan = OpSelect \<or> Operation plan = [] \<or> Operation plan = OpDelete \<longrightarrow>
           BuildQuery qb (Some (plan\<lparr>Data := d\<rparr>)) = BuildQuery qb (Some plan))"
proof -
  have create: "fst (BuildQuery qb (Some plan)) =
       Inr (''INSERT INTO '' @ Table rootModel @ '' ('' @ join (map fst (Data plan)) '', ''
            @ '') VALUES ('' @ join (placeholderList 0 (Data plan)) '', ''
            @ '') RETURNING *;'',
            map snd (Data plan))"
    if "Operation plan = OpCreate \<and> Data plan \<noteq> []"
    using that assms by (simp add: BuildQuery_def buildInsert_def insertFields_result Let_def)
  have byId: "fst (BuildQuery qb (Some plan)) =
       Inr (''UPDATE '' @ Table rootModel @ '' SET '' @ join (setClauses 0 (Data plan)) '', ''
            @ '' WHERE '' @ ColumnName (PrimaryKey rootModel) @ '' = $''
            @ showInt (int (length (Data plan)) + 1) @ '' RETURNING *;'',
            map snd (Data plan) @ [ID plan])"
    if a: "Operation plan = OpUpdate \<and> Data plan \<noteq> [] \<and> ID plan \<noteq> VNil"
  proof -
    obtain sets qb' where u: "updateSets \<lparr>params = [], paramCount = 0\<rparr> (Data plan) [] = (sets, qb')"
      by (cases "updateSets \<lparr>params = [], paramCount = 0\<rparr> (Data plan) []")
    have st: "params qb' = map snd (Data plan)" "paramCount qb' = int (length (Data plan))"
      using updateSets_state[of "\<lparr>params = [], paramCount = 0\<rparr>" "Data plan" "[]"] u by simp_all
    have cl: "sets = setClauses 0 (Data plan)"
      using updateSets_clauses[of "\<lparr>params = [], paramCount = 0\<rparr>" "Data plan" "[]"] u by simp
    show ?thesis
      using assms a u st cl
      by (simp add: BuildQuery_def buildUpdate_def buildSelector_id Let_def reset_builder)
  qed
  have byFilters: "fst (BuildQuery qb (Some plan)) =
       (case buildWhereClause
               \<lparr>params = map snd (Data plan), paramCount = int (length (Data plan))\<rparr>
               (Filters plan) of
          (Inl err, qb') \<Rightarrow> Inl err
        | (Inr wherePart, qb') \<Rightarrow>
            Inr (''UPDATE '' @ Table rootModel @ '' SET ''
                 @ join (setClauses 0 (Data plan)) '', '' @ '' '' @ wherePart
                 @ '' RETURNING *;'', params qb'))"
    if "Operation plan = OpUpdate \<and> Data plan \<noteq> [] \<and> ID plan = VNil
        \<and> Filters plan \<noteq> NilFilterExpr"
    using update_by_filters[OF assms, of qb] that by simp
  have prefix: "\<exists>extra. ps = map snd (Data plan) @ extra"
    if a: "Operation plan = OpUpdate \<and> fst (BuildQuery qb (Some plan)) = Inr (sql, ps)"
  proof -
    have d: "Data plan \<noteq> []"
      using a assms by (auto simp: BuildQuery_def buildUpdate_def Let_def)
    show ?thesis
    proof (cases "ID plan = VNil")
      case False
      then show ?thesis using byId a d by simp
    next
      case True
      have fne: "Filters plan \<noteq> NilFilterExpr"
        using a assms d True
        by (auto simp: BuildQuery_def buildUpdate_def buildSelector_def Let_def
            split: prod.splits)
      obtain r qb' where w: "buildWhereClause
           \<lparr>params = map snd (Data plan), paramCount = int (length (Data plan))\<rparr>
           (Filters plan) = (r, qb')"
        by (cases "buildWhereClause
           \<lparr>params = map snd (Data plan), paramCount = int (length (Data plan))\<rparr>
           (Filters plan)")
      obtain extra where e: "params qb' = map snd (Data plan) @ extra"
        using where_params_grow[OF w] by auto
      have "ps = params qb'"
        using byFilters a d True fne w by (cases r) auto
      then show ?thesis using e by simp
    qed
  qed
  have noData: "BuildQuery qb (Some (plan\<lparr>Data := d\<rparr>)) = BuildQuery qb (Some plan)"
    if "Operation plan = OpSelect \<or> Operation plan = [] \<or> Operation plan = OpDelete"
    using that assms
    by (auto simp: BuildQuery_def Let_def buildSelect_data_irrelevant buildDelete_data_irrelevant)
  show ?thesis using create byId byFilters prefix noData by blast
qed

theorem output_follows_data_enumeration_witness:
  "RootModel (createPlan nameFirst) = Some usersRoot
   \<and> Operation (createPlan nameFirst) = OpCreate \<and> Data (createPlan nameFirst) \<noteq> []
   \<and> fst (BuildQuery NewQueryBuilder (Some (createPlan nameFirst))) =
       Inr (''INSERT INTO users (name, email) VALUES ($1, $2) RETURNING *;'',
            [VStr ''A'', VStr ''a@b''])
   \<and> RootModel updateByFilterPlan = Some usersRoot \<and> Operation updateByFilterPlan = OpUpdate
   \<and> Data updateByFilterPlan \<noteq> [] \<and> ID updateByFilterPlan = VNil
   \<and> Filters updateByFilterPlan \<noteq> NilFilterExpr
   \<and> fst (BuildQuery NewQueryBuilder (Some updateByFilterPlan)) =
       Inr (''UPDATE users SET name = $1 WHERE t0.user_id = $2::uuid RETURNING *;'',
            [VStr ''X'', VStr ''11111111-1111-1111-1111-111111111111''])"
proof -
  have h: "RootModel (createPlan nameFirst) = Some usersRoot"
    by (simp add: createPlan_def)
  have c: "fst (BuildQuery NewQueryBuilder (Some (createPlan nameFirst))) =
       Inr (''INSERT INTO users (name, email) VALUES ($1, $2) RETURNING *;'',
            [VStr ''A'', VStr ''a@b''])"
    using h output_follows_data_enumeration[OF h, of NewQueryBuilder]
    by (simp add: createPlan_def nameFirst_def usersRoot_def showInt_def showNat.simps digit_def)
  have g: "RootModel updateByFilterPlan = Some usersRoot"
    by (simp add: updateByFilterPlan_def)
  have w: "buildWhereClause \<lparr>params = [VStr ''X''], paramCount = 1\<rparr> (Comparison uuidFilter) =
       (Inr ''WHERE t0.user_id = $2::uuid'',
        \<lparr>params = [VStr ''X'', VStr ''11111111-1111-1111-1111-111111111111''], paramCount = 2\<rparr>)"
    by code_simp
  have u: "fst (BuildQuery NewQueryBuilder (Some updateByFilterPlan)) =
       Inr (''UPDATE users SET name = $1 WHERE t0.user_id = $2::uuid RETURNING *;'',
            [VStr ''X'', VStr ''11111111-1111-1111-1111-111111111111''])"
    using g w output_follows_data_enumeration[OF g, of NewQueryBuilder]
    by (simp add: updateByFilterPlan_def usersRoot_def showInt_def showNat.simps digit_def)
  show ?thesis using h c g u by (simp add: createPlan_def nameFirst_def updateByFilterPlan_def)
qed

text \<open>
  C2, counterexample. The two enumerations of one data map give two different statements and parameter
  lists, and the second field list is not in lexicographic order.
\<close>

theorem create_output_depends_on_enumeration:
  "set emailFirst = set nameFirst
   \<and> fst (BuildQuery NewQueryBuilder (Some (createPlan emailFirst))) =
       Inr (''INSERT INTO users (email, name) VALUES ($1, $2) RETURNING *;'',
            [VStr ''a@b'', VStr ''A''])
   \<and> fst (BuildQuery NewQueryBuilder (Some (createPlan nameFirst))) =
       Inr (''INSERT INTO users (name, email) VALUES ($1, $2) RETURNING *;'',
            [VStr ''A'', VStr ''a@b''])"
proof (intro conjI)
  show "set emailFirst = set nameFirst"
    by (auto simp: emailFirst_def nameFirst_def)
  show "fst (BuildQuery NewQueryBuilder (Some (createPlan emailFirst))) =
       Inr (''INSERT INTO users (email, name) VALUES ($1, $2) RETURNING *;'',
            [VStr ''a@b'', VStr ''A''])"
    by code_simp
  show "fst (BuildQuery NewQueryBuilder (Some (createPlan nameFirst))) =
       Inr (''INSERT INTO users (name, email) VALUES ($1, $2) RETURNING *;'',
            [VStr ''A'', VStr ''a@b''])"
    by code_simp
qed

lemma comparison_expected:
  assumes "Value f = Some v" and "castRuleApplies f"
  shows "buildComparisonFilter qb f =
           (Inr (expectedComparison (paramCount qb + 1) f), bindParam qb (Value_v v))"
proof -
  have c: "DataType (Left f) \<in> {TypeUUID, TypeJSON, TypeBinary, TypeTimestamp} \<Longrightarrow>
      needsTypeCasting (DataType (Left f))
      \<and> addTypeCast (''$'' @ showInt (paramCount qb + 1)) (DataType (Left f)) =
          ''$'' @ showInt (paramCount qb + 1) @ spec_cast (DataType (Left f))"
    using addTypeCast_cast[of "DataType (Left f)" "showInt (paramCount qb + 1)"]
    by (auto simp: needsTypeCasting_def)
  have ops: "Operator f \<in> {OpEqual, OpNotEqual, OpIn, OpNotIn} \<Longrightarrow>
      DataType (Left f) \<in> {TypeUUID, TypeJSON, TypeBinary, TypeTimestamp}"
    using assms(2) by (auto simp: castRuleApplies_def)
  consider "Operator f = OpEqual" | "Operator f = OpNotEqual" | "Operator f = OpIn"
    | "Operator f = OpNotIn" | "Operator f = OpGT" | "Operator f = OpGTE"
    | "Operator f = OpLT" | "Operator f = OpLTE"
    using assms(2) by (auto simp: castRuleApplies_def)
  then show ?thesis
  proof cases
    case 1 then show ?thesis using assms(1) c ops
      by (simp add: buildComparisonFilter_def expectedComparison_def bindParam_def Let_def)
  next
    case 2 then show ?thesis using assms(1) c ops
      by (simp add: buildComparisonFilter_def expectedComparison_def bindParam_def Let_def)
  next
    case 3 then show ?thesis using assms(1) c ops
      by (simp add: buildComparisonFilter_def expectedComparison_def bindParam_def Let_def)
  next
    case 4 then show ?thesis using assms(1) c ops
      by (simp add: buildComparisonFilter_def expectedComparison_def bindParam_def Let_def)
  next
    case 5 then show ?thesis using assms(1)
      by (simp add: buildComparisonFilter_def expectedComparison_def bindParam_def Let_def)
  next
    case 6 then show ?thesis using assms(1)
      by (simp add: buildComparisonFilter_def expectedComparison_def bindParam_def Let_def)
  next
    case 7 then show ?thesis using assms(1)
      by (simp add: buildComparisonFilter_def expectedComparison_def bindParam_def Let_def)
  next
    case 8 then show ?thesis using assms(1)
      by (simp add: buildComparisonFilter_def expectedComparison_def bindParam_def Let_def)
  qed
qed

lemma comparison_state:
  assumes "buildComparisonFilter qb f = (Inr sql, qb')" and "aligned qb"
  shows "aligned qb' \<and> (\<exists>extra. params qb' = params qb @ extra)"
  using assms
  by (auto simp: buildComparisonFilter_def bindParam_def aligned_def Let_def
      split: if_splits option.splits val.splits)

lemma endsToken_append: "endsToken post \<Longrightarrow> endsToken b \<Longrightarrow> endsToken (post @ b)"
  by (cases post) (auto simp: endsToken_def)

lemma placed_context:
  "placed qb qb' sql f \<Longrightarrow> endsToken b \<Longrightarrow> placed qb qb' (a @ sql @ b) f"
  unfolding placed_def
proof (elim exE conjE)
  fix n pre post v
  assume h: "0 < n" "paramCount qb < n" "n \<le> paramCount qb'"
    "sql = pre @ expectedComparison n f @ post" "endsToken post" "Value f = Some v"
    "params qb' ! nat (n - 1) = Value_v v" and b: "endsToken b"
  have "a @ sql @ b = (a @ pre) @ expectedComparison n f @ (post @ b)" using h(4) by simp
  moreover have "endsToken (post @ b)" using h(5) b by (rule endsToken_append)
  ultimately show "\<exists>n pre post v. 0 < n \<and> paramCount qb < n \<and> n \<le> paramCount qb'
       \<and> a @ sql @ b = pre @ expectedComparison n f @ post \<and> endsToken post
       \<and> Value f = Some v \<and> params qb' ! nat (n - 1) = Value_v v"
    using h by blast
qed

lemma placed_from:
  "placed qb1 qb' sql f \<Longrightarrow> paramCount qb0 \<le> paramCount qb1 \<Longrightarrow> placed qb0 qb' sql f"
  unfolding placed_def by force

lemma placed_until:
  assumes "placed qb qb1 sql f" and "aligned qb1" and "params qb2 = params qb1 @ extra"
    and "aligned qb2"
  shows "placed qb qb2 sql f"
proof -
  obtain n pre post v where h: "0 < n" "paramCount qb < n" "n \<le> paramCount qb1"
    "sql = pre @ expectedComparison n f @ post" "endsToken post" "Value f = Some v"
    "params qb1 ! nat (n - 1) = Value_v v"
    using assms(1) unfolding placed_def by blast
  have l: "nat (n - 1) < length (params qb1)" using h(1,3) assms(2) by (simp add: aligned_def)
  have "params qb2 ! nat (n - 1) = Value_v v" using l h(7) assms(3) by (simp add: nth_append)
  moreover have "n \<le> paramCount qb2" using h(3) assms(2,3,4) by (simp add: aligned_def)
  ultimately show ?thesis unfolding placed_def using h by blast
qed

lemma aligned_mono:
  "aligned qb \<Longrightarrow> aligned qb' \<Longrightarrow> params qb' = params qb @ extra \<Longrightarrow> paramCount qb \<le> paramCount qb'"
  by (simp add: aligned_def)

lemma join_member:
  "part \<in> set ps \<Longrightarrow> \<exists>a b. join ps sep = a @ part @ b \<and> (b = [] \<or> (\<exists>c. b = sep @ c))"
proof (induction ps sep rule: join.induct)
  case (1 sep)
  then show ?case by simp
next
  case (2 x sep)
  then have "join [x] sep = [] @ part @ []" by simp
  then show ?case by blast
next
  case (3 x y ys sep)
  show ?case
  proof (cases "part = x")
    case True
    then have "join (x # y # ys) sep = [] @ part @ (sep @ join (y # ys) sep)" by simp
    then show ?thesis by blast
  next
    case False
    then have "part \<in> set (y # ys)" using "3.prems" by simp
    then obtain a b where "join (y # ys) sep = a @ part @ b" "b = [] \<or> (\<exists>c. b = sep @ c)"
      using "3.IH" by blast
    then have "join (x # y # ys) sep = (x @ sep @ a) @ part @ b" by simp
    then show ?thesis using \<open>b = [] \<or> (\<exists>c. b = sep @ c)\<close> by blast
  qed
qed

lemma placed_join:
  assumes "part \<in> set ps" and "placed qb qb' part f" and "sep \<noteq> []" and "hd sep = CHR '' ''"
    and "endsToken b"
  shows "placed qb qb' (a @ join ps sep @ b) f"
proof -
  obtain x y where j: "join ps sep = x @ part @ y" and y: "y = [] \<or> (\<exists>c. y = sep @ c)"
    using join_member[OF assms(1)] by blast
  have "endsToken (y @ b)"
    using y assms(3,4,5) by (cases sep) (auto simp: endsToken_def)
  then have "placed qb qb' ((a @ x) @ part @ (y @ b)) f"
    using assms(2) by (rule placed_context[rotated])
  then show ?thesis using j by simp
qed

lemma filter_tree_placed:
  "aligned qb \<Longrightarrow> buildFilterExpression qb fe = (Inr sql, qb') \<Longrightarrow>
     treeOk qb qb'
     \<and> (\<forall>f \<in> set (comparisons fe). castRuleApplies f \<and> Value f \<noteq> None \<longrightarrow> placed qb qb' sql f)"
  and "aligned qb \<Longrightarrow> buildNodes qb nodes parts = (Inr ps, qb') \<Longrightarrow>
     treeOk qb qb'
     \<and> (\<exists>rest. ps = parts @ rest
          \<and> (\<forall>f \<in> set (concat (map comparisons nodes)). castRuleApplies f \<and> Value f \<noteq> None \<longrightarrow>
                (\<exists>part \<in> set rest. placed qb qb' part f)))"
proof (induction qb fe and qb nodes parts arbitrary: sql qb' and ps qb'
    rule: buildFilterExpression_buildNodes.induct)
  case (1 qb e)
  have st: "treeOk qb qb'"
    using comparison_state[of qb e sql qb'] 1 by (simp add: treeOk_def)
  have "placed qb qb' sql e" if h: "castRuleApplies e" "Value e \<noteq> None"
  proof -
    obtain v where v: "Value e = Some v" using h(2) by blast
    have eq: "sql = expectedComparison (paramCount qb + 1) e" "qb' = bindParam qb (Value_v v)"
      using comparison_expected[OF v h(1), of qb] 1 by simp_all
    have n: "0 < paramCount qb + 1" using "1.prems"(1) by (simp add: aligned_def)
    have "nat (paramCount qb) = length (params qb)"
      using "1.prems"(1) by (simp add: aligned_def flip: nat_int)
    then have "params qb' ! nat (paramCount qb + 1 - 1) = Value_v v"
      by (simp add: eq bindParam_def)
    moreover have "sql = [] @ expectedComparison (paramCount qb + 1) e @ []" using eq by simp
    moreover have "paramCount qb + 1 \<le> paramCount qb'" by (simp add: eq bindParam_def)
    ultimately show ?thesis unfolding placed_def using n v
      by (intro exI[of _ "paramCount qb + 1"] exI[of _ "[]"] exI[of _ v]) (simp add: endsToken_def)
  qed
  then show ?case using st by simp
next
  case (2 qb op nodes)
  have ne: "length nodes \<noteq> 0" using "2.prems"(2) by (auto split: if_splits)
  obtain r qb1 where bn: "buildNodes qb nodes [] = (r, qb1)" by (cases "buildNodes qb nodes []")
  obtain parts where r: "r = Inr parts"
    using "2.prems"(2) ne bn by (cases r) auto
  have q: "qb1 = qb'" using "2.prems"(2) ne bn r by (auto split: if_splits)
  have ih: "treeOk qb qb'"
    "\<forall>f \<in> set (concat (map comparisons nodes)). castRuleApplies f \<and> Value f \<noteq> None \<longrightarrow>
        (\<exists>part \<in> set parts. placed qb qb' part f)"
    using "2.IH"[OF _ "2.prems"(1), of parts qb'] ne bn r q by auto
  have "placed qb qb' sql f"
    if f: "f \<in> set (concat (map comparisons nodes))" "castRuleApplies f" "Value f \<noteq> None" for f
  proof -
    obtain part where p: "part \<in> set parts" "placed qb qb' part f" using ih(2) f by blast
    consider (a) "op = ''AND''" "sql = ''('' @ join parts '' AND '' @ '')''"
      | (o) "op = ''OR''" "sql = ''('' @ join parts '' OR '' @ '')''"
      | (n) "op = ''NOT''" "length parts = 1" "sql = ''NOT '' @ parts ! 0"
      using "2.prems"(2) ne bn r by (auto split: if_splits)
    then show ?thesis
    proof cases
      case a
      show ?thesis unfolding a(2)
        by (rule placed_join[OF p]) (simp_all add: endsToken_def)
    next
      case o
      show ?thesis unfolding o(2)
        by (rule placed_join[OF p]) (simp_all add: endsToken_def)
    next
      case n
      have "parts = [part]" using n(2) p(1) by (cases parts) auto
      then have "sql = ''NOT '' @ part @ []" using n(3) by simp
      then show ?thesis using placed_context[OF p(2), of "[]" "''NOT ''"] 
        by (simp add: endsToken_def)
    qed
  qed
  then show ?case using ih(1) by simp
next
  case (3 qb t)
  then show ?case by simp
next
  case (4 qb)
  then show ?case by simp
next
  case (5 qb parts)
  then show ?case by (simp add: treeOk_def)
next
  case (6 qb node nodes parts)
  obtain r qb1 where bf: "buildFilterExpression qb node = (r, qb1)"
    by (cases "buildFilterExpression qb node")
  obtain nodeSql where r: "r = Inr nodeSql"
    using "6.prems"(2) bf by (cases r) auto
  have rest: "buildNodes qb1 nodes (parts @ [nodeSql]) = (Inr ps, qb')"
    using "6.prems"(2) bf r by simp
  have h1: "treeOk qb qb1"
    "\<forall>f \<in> set (comparisons node). castRuleApplies f \<and> Value f \<noteq> None \<longrightarrow> placed qb qb1 nodeSql f"
    using "6.IH"(1)[OF "6.prems"(1), of nodeSql qb1] bf r by auto
  have a1: "aligned qb1" using h1(1) by (simp add: treeOk_def)
  obtain rest' where h2: "treeOk qb1 qb'" "ps = (parts @ [nodeSql]) @ rest'"
    "\<forall>f \<in> set (concat (map comparisons nodes)). castRuleApplies f \<and> Value f \<noteq> None \<longrightarrow>
        (\<exists>part \<in> set rest'. placed qb1 qb' part f)"
    using "6.IH"(2)[OF bf[symmetric] r a1 rest] by auto
  obtain e1 e2 where e: "params qb1 = params qb @ e1" "params qb' = params qb1 @ e2"
    using h1(1) h2(1) by (auto simp: treeOk_def)
  have a2: "aligned qb'" using h2(1) by (simp add: treeOk_def)
  have t: "treeOk qb qb'" using e a2 by (simp add: treeOk_def)
  have m: "paramCount qb \<le> paramCount qb1"
    using aligned_mono[OF "6.prems"(1) a1 e(1)] .
  have "\<exists>part \<in> set (nodeSql # rest'). placed qb qb' part f"
    if f: "f \<in> set (concat (map comparisons (node # nodes)))" "castRuleApplies f" "Value f \<noteq> None" for f
  proof (cases "f \<in> set (comparisons node)")
    case True
    then have "placed qb qb1 nodeSql f" using h1(2) f by blast
    then have "placed qb qb' nodeSql f" using a1 e(2) a2 by (rule placed_until)
    then show ?thesis by simp
  next
    case False
    then have "f \<in> set (concat (map comparisons nodes))" using f(1) by simp
    then obtain part where "part \<in> set rest'" "placed qb1 qb' part f" using h2(3) f by blast
    then show ?thesis using placed_from[OF _ m] by auto
  qed
  moreover have "ps = parts @ (nodeSql # rest')" using h2(2) by simp
  ultimately show ?case using t by blast
qed

lemma where_placed:
  assumes "aligned qb" and "buildWhereClause qb fe = (Inr w, qb')"
  shows "treeOk qb qb'
     \<and> (\<forall>f \<in> set (comparisons fe). castRuleApplies f \<and> Value f \<noteq> None \<longrightarrow> placed qb qb' w f)"
proof -
  obtain r qb1 where b: "buildFilterExpression qb fe = (r, qb1)"
    by (cases "buildFilterExpression qb fe")
  obtain sql where r: "r = Inr sql" "w = ''WHERE '' @ sql" "qb1 = qb'"
    using assms(2) b by (cases r) (auto simp: buildWhereClause_def)
  have t: "treeOk qb qb'"
    "\<forall>f \<in> set (comparisons fe). castRuleApplies f \<and> Value f \<noteq> None \<longrightarrow> placed qb qb' sql f"
    using filter_tree_placed(1)[OF assms(1), of fe sql qb'] b r by auto
  have "placed qb qb' w f" if "f \<in> set (comparisons fe)" "castRuleApplies f" "Value f \<noteq> None" for f
  proof -
    have "placed qb qb' sql f" using t(2) that by blast
    then have "placed qb qb' (''WHERE '' @ sql @ []) f"
      by (rule placed_context) (simp add: endsToken_def)
    then show ?thesis using r(2) by simp
  qed
  then show ?thesis using t(1) by blast
qed

lemma pagination_state:
  "buildPaginationClause qb plan = (p, qb') \<Longrightarrow> aligned qb \<Longrightarrow>
     aligned qb' \<and> (\<exists>extra. params qb' = params qb @ extra)"
  by (auto simp: buildPaginationClause_def bindParam_def aligned_def Let_def)

lemma select_placed:
  assumes "aligned qb" and "buildSelect qb plan rootModel = (Inr (sql, ps), qb')"
    and "f \<in> set (comparisons (Filters plan))" and "castRuleApplies f" and "Value f \<noteq> None"
  shows "placed qb qb' sql f \<and> ps = params qb' \<and> aligned qb'"
proof -
  have fne: "Filters plan \<noteq> NilFilterExpr" using assms(3) by auto
  obtain selectPart where sp: "buildSelectClause plan = Inr selectPart"
    using assms(2) by (cases "buildSelectClause plan") (auto simp: buildSelect_def)
  obtain r qb1 where w: "buildWhereClause qb (Filters plan) = (r, qb1)"
    by (cases "buildWhereClause qb (Filters plan)")
  obtain wherePart where r: "r = Inr wherePart"
    using assms(2) sp w fne by (cases r) (auto simp: buildSelect_def Let_def)
  obtain p qb2 where pg: "buildPaginationClause qb1 plan = (p, qb2)"
    by (cases "buildPaginationClause qb1 plan")
  define parts where "parts =
     (let parts' = [selectPart, buildFromClause rootModel] @ [wherePart];
          parts2 = (if length (GroupBy plan) > 0
                    then parts' @ [buildGroupByClause plan] else parts');
          parts3 = (if length (Sort plan) > 0
                    then parts2 @ [buildOrderByClause plan] else parts2)
      in parts3 @ [p])"
  have res: "sql = join parts '' '' @ '';''" "wherePart \<in> set parts"
    "qb' = qb2" "ps = params qb2"
    using assms(2) sp w r fne pg
    by (auto simp: buildSelect_def parts_def Let_def simp del: join.simps split: if_splits)
  have t: "treeOk qb qb1" "placed qb qb1 wherePart f"
    using where_placed[OF assms(1), of "Filters plan" wherePart qb1] w r assms(3,4,5) by auto
  have a1: "aligned qb1" using t(1) by (simp add: treeOk_def)
  obtain extra where a2: "aligned qb2" "params qb2 = params qb1 @ extra"
    using pagination_state[OF pg a1] by blast
  have "placed qb qb1 ([] @ join parts '' '' @ '';'') f"
    by (rule placed_join[OF res(2) t(2)]) (simp_all add: endsToken_def)
  then have "placed qb qb1 sql f" using res(1) by simp
  then have "placed qb qb2 sql f" using a1 a2(2) a2(1) by (rule placed_until)
  then show ?thesis using res a2(1) by simp
qed

lemma selector_placed:
  assumes "aligned qb" and "buildSelector qb plan rootModel opname = (Inr w, qb')"
    and "ID plan = VNil"
    and "f \<in> set (comparisons (Filters plan))" and "castRuleApplies f" and "Value f \<noteq> None"
  shows "treeOk qb qb' \<and> placed qb qb' w f"
proof -
  have fne: "Filters plan \<noteq> NilFilterExpr" using assms(4) by auto
  have "buildWhereClause qb (Filters plan) = (Inr w, qb')"
    using assms(2,3) fne by (simp add: buildSelector_def)
  then show ?thesis using where_placed[OF assms(1)] assms(4,5,6) by blast
qed

lemma updateSets_aligned: "aligned qb \<Longrightarrow> aligned (snd (updateSets qb d sets))"
  using updateSets_state[of qb d sets] by (simp add: aligned_def)

lemma update_placed:
  assumes "aligned qb" and "buildUpdate qb plan rootModel = (Inr (sql, ps), qb')"
    and "ID plan = VNil"
    and "f \<in> set (comparisons (Filters plan))" and "castRuleApplies f" and "Value f \<noteq> None"
  shows "placed qb qb' sql f \<and> ps = params qb' \<and> aligned qb'"
proof -
  have d: "length (Data plan) \<noteq> 0" using assms(2) by (auto simp: buildUpdate_def)
  obtain sets qb1 where u: "updateSets qb (Data plan) [] = (sets, qb1)"
    by (cases "updateSets qb (Data plan) []")
  have a1: "aligned qb1" using updateSets_aligned[OF assms(1), of "Data plan" "[]"] u by simp
  have m: "paramCount qb \<le> paramCount qb1"
    using updateSets_state[of qb "Data plan" "[]"] u by simp
  obtain r qb2 where s: "buildSelector qb1 plan rootModel ''update'' = (r, qb2)"
    by (cases "buildSelector qb1 plan rootModel ''update''")
  obtain w where r: "r = Inr w"
    using assms(2) d u s by (cases r) (auto simp: buildUpdate_def)
  have res: "sql = (''UPDATE '' @ Table rootModel @ '' SET '' @ join sets '', '' @ '' '') @ w
                   @ '' RETURNING *;''" "qb' = qb2" "ps = params qb2"
    using assms(2) d u s r by (auto simp: buildUpdate_def Let_def)
  have sp: "treeOk qb1 qb2" "placed qb1 qb2 w f"
    using selector_placed[OF a1 _ assms(3,4,5,6), of rootModel "''update''" w qb2] s r
    by simp_all
  have "placed qb1 qb2 sql f" unfolding res(1)
    using sp(2) by (rule placed_context) (simp add: endsToken_def)
  then have "placed qb qb2 sql f" using m by (rule placed_from)
  then show ?thesis using res sp(1) by (simp add: treeOk_def)
qed

lemma delete_placed:
  assumes "aligned qb" and "buildDelete qb plan rootModel = (Inr (sql, ps), qb')"
    and "ID plan = VNil"
    and "f \<in> set (comparisons (Filters plan))" and "castRuleApplies f" and "Value f \<noteq> None"
  shows "placed qb qb' sql f \<and> ps = params qb' \<and> aligned qb'"
proof -
  obtain r qb2 where s: "buildSelector qb plan rootModel ''delete'' = (r, qb2)"
    by (cases "buildSelector qb plan rootModel ''delete''")
  obtain w where r: "r = Inr w"
    using assms(2) s by (cases r) (auto simp: buildDelete_def)
  have res: "sql = (''DELETE FROM '' @ Table rootModel @ '' '') @ w @ '';''" "qb' = qb2"
    "ps = params qb2"
    using assms(2) s r by (auto simp: buildDelete_def Let_def)
  have sp: "treeOk qb qb2" "placed qb qb2 w f"
    using selector_placed[OF assms(1) _ assms(3,4,5,6), of rootModel "''delete''" w qb2] s r
    by simp_all
  have "placed qb qb2 sql f" unfolding res(1)
    using sp(2) by (rule placed_context) (simp add: endsToken_def)
  then show ?thesis using res sp(1) by (simp add: treeOk_def)
qed

lemma build_placed:
  assumes "BuildQuery qb (Some plan) = (Inr (sql, ps), qb')"
    and "Operation plan = OpSelect \<or> Operation plan = []
         \<or> ((Operation plan = OpUpdate \<or> Operation plan = OpDelete) \<and> ID plan = VNil)"
    and "f \<in> set (comparisons (Filters plan))" and "castRuleApplies f" and "Value f \<noteq> None"
  shows "placed \<lparr>params = [], paramCount = 0\<rparr> qb' sql f \<and> ps = params qb' \<and> aligned qb'"
proof -
  obtain rootModel where rm: "RootModel plan = Some rootModel"
    using assms(1) by (cases "RootModel plan") (auto simp: BuildQuery_def)
  have al: "aligned \<lparr>params = [], paramCount = 0\<rparr>" by (simp add: aligned_def)
  consider (s) "buildSelect \<lparr>params = [], paramCount = 0\<rparr> plan rootModel = (Inr (sql, ps), qb')"
    | (u) "ID plan = VNil" "buildUpdate \<lparr>params = [], paramCount = 0\<rparr> plan rootModel = (Inr (sql, ps), qb')"
    | (d) "ID plan = VNil" "buildDelete \<lparr>params = [], paramCount = 0\<rparr> plan rootModel = (Inr (sql, ps), qb')"
    using assms(1,2) rm by (auto simp: BuildQuery_def Let_def reset_builder split: if_splits)
  then show ?thesis
  proof cases
    case s
    show ?thesis by (rule select_placed[OF al s assms(3,4,5)])
  next
    case u
    show ?thesis by (rule update_placed[OF al u(2) u(1) assms(3,4,5)])
  next
    case d
    show ?thesis by (rule delete_placed[OF al d(2) d(1) assms(3,4,5)])
  qed
qed

lemma nested_scenario:
  "fst (BuildQuery NewQueryBuilder (Some nestedPlan)) =
     Inr (''SELECT * FROM orders t0 WHERE (t0.amount > $1 AND NOT t0.user_id = $2::uuid) LIMIT $3 OFFSET $4;'',
          [VInt 10, VStr ''11111111-1111-1111-1111-111111111111'', VInt 100, VInt 0])"
  by code_simp

text \<open>
  C4. A comparison with a value on a column of type uuid, json, binary or timestamp
  emits its placeholder with the cast \<open>::uuid\<close>, \<open>::jsonb\<close>, \<open>::bytea\<close> or
  \<open>::timestamp\<close> when the operator is \<open>=\<close>, \<open>!=\<close>, \<open>in\<close> or \<open>not_in\<close>; the
  magnitude comparisons \<open>>\<close>, \<open>>=\<close>, \<open><\<close>, \<open><=\<close> emit the bare placeholder on a
  column of any type; the plan of the UUID scenario compiles to
  \<open>SELECT * FROM orders t0 WHERE t0.user_id = $1::uuid LIMIT $2 OFFSET $3;\<close>. And in
  every build that compiles the filters (a select, or an update or delete without
  identifier) and succeeds, each such comparison of the filter tree, at any depth under
  \<open>AND\<close>, \<open>OR\<close> and \<open>NOT\<close>, has this text in the statement, for a placeholder
  \<open>$n\<close> whose parameter is the value of the comparison, and followed by the end of a
  token.
\<close>

theorem cast_placement:
  assumes "Value f = Some v"
  shows "(DataType (Left f) \<in> {TypeUUID, TypeJSON, TypeBinary, TypeTimestamp} \<longrightarrow>
      (Operator f = OpEqual \<longrightarrow> fst (buildComparisonFilter qb f) =
         Inr (colNameOf (Left f) @ '' = $'' @ showInt (paramCount qb + 1)
              @ spec_cast (DataType (Left f))))
    \<and> (Operator f = OpNotEqual \<longrightarrow> fst (buildComparisonFilter qb f) =
         Inr (colNameOf (Left f) @ '' != $'' @ showInt (paramCount qb + 1)
              @ spec_cast (DataType (Left f))))
    \<and> (Operator f = OpIn \<longrightarrow> fst (buildComparisonFilter qb f) =
         Inr (colNameOf (Left f) @ '' = ANY($'' @ showInt (paramCount qb + 1)
              @ spec_cast (DataType (Left f)) @ '')''))
    \<and> (Operator f = OpNotIn \<longrightarrow> fst (buildComparisonFilter qb f) =
         Inr (colNameOf (Left f) @ '' != ALL($'' @ showInt (paramCount qb + 1)
              @ spec_cast (DataType (Left f)) @ '')'')))
    \<and> (Operator f = OpGT \<longrightarrow> fst (buildComparisonFilter qb f) =
         Inr (colNameOf (Left f) @ '' > $'' @ showInt (paramCount qb + 1)))
    \<and> (Operator f = OpGTE \<longrightarrow> fst (buildComparisonFilter qb f) =
         Inr (colNameOf (Left f) @ '' >= $'' @ showInt (paramCount qb + 1)))
    \<and> (Operator f = OpLT \<longrightarrow> fst (buildComparisonFilter qb f) =
         Inr (colNameOf (Left f) @ '' < $'' @ showInt (paramCount qb + 1)))
    \<and> (Operator f = OpLTE \<longrightarrow> fst (buildComparisonFilter qb f) =
         Inr (colNameOf (Left f) @ '' <= $'' @ showInt (paramCount qb + 1)))
    \<and> fst (BuildQuery NewQueryBuilder (Some uuidPlan)) =
         Inr (''SELECT * FROM orders t0 WHERE t0.user_id = $1::uuid LIMIT $2 OFFSET $3;'',
              [VStr ''11111111-1111-1111-1111-111111111111'', VInt 100, VInt 0])
    \<and> (castRuleApplies f \<and> f \<in> set (comparisons (Filters plan))
        \<and> (Operation plan = OpSelect \<or> Operation plan = []
            \<or> ((Operation plan = OpUpdate \<or> Operation plan = OpDelete) \<and> ID plan = VNil))
        \<and> fst (BuildQuery qb0 (Some plan)) = Inr (sql, ps) \<longrightarrow>
        (\<exists>n pre post. 0 < n \<and> n \<le> int (length ps) \<and> ps ! nat (n - 1) = Value_v v
           \<and> sql = pre @ expectedComparison n f @ post \<and> endsToken post))"
proof -
  have c: "DataType (Left f) \<in> {TypeUUID, TypeJSON, TypeBinary, TypeTimestamp} \<Longrightarrow>
      needsTypeCasting (DataType (Left f))
      \<and> addTypeCast (''$'' @ showInt (paramCount qb + 1)) (DataType (Left f)) =
          ''$'' @ showInt (paramCount qb + 1) @ spec_cast (DataType (Left f))"
    using addTypeCast_cast[of "DataType (Left f)" "showInt (paramCount qb + 1)"]
    by (auto simp: needsTypeCasting_def)
  have build: "\<exists>n pre post. 0 < n \<and> n \<le> int (length ps) \<and> ps ! nat (n - 1) = Value_v v
           \<and> sql = pre @ expectedComparison n f @ post \<and> endsToken post"
    if h: "castRuleApplies f" "f \<in> set (comparisons (Filters plan))"
      "Operation plan = OpSelect \<or> Operation plan = []
         \<or> ((Operation plan = OpUpdate \<or> Operation plan = OpDelete) \<and> ID plan = VNil)"
      "fst (BuildQuery qb0 (Some plan)) = Inr (sql, ps)"
  proof -
    obtain qb' where b: "BuildQuery qb0 (Some plan) = (Inr (sql, ps), qb')"
      using h(4) by (cases "BuildQuery qb0 (Some plan)") simp
    have vn: "Value f \<noteq> None" using assms by simp
    have p: "placed \<lparr>params = [], paramCount = 0\<rparr> qb' sql f" "ps = params qb'" "aligned qb'"
      using build_placed[OF b h(3) h(2) h(1) vn] by simp_all
    then show ?thesis using assms unfolding placed_def aligned_def by auto
  qed
  show ?thesis
    using uuid_scenario assms c build
    by (simp add: buildComparisonFilter_def bindParam_def Let_def)
qed

theorem cast_placement_witness:
  "Value uuidFilter = Some \<lparr>Value_v = VStr ''11111111-1111-1111-1111-111111111111''\<rparr>
   \<and> DataType (Left uuidFilter) \<in> {TypeUUID, TypeJSON, TypeBinary, TypeTimestamp}
   \<and> Operator uuidFilter = OpEqual
   \<and> fst (buildComparisonFilter NewQueryBuilder uuidFilter) = Inr ''t0.user_id = $1::uuid''
   \<and> castRuleApplies uuidFilter \<and> uuidFilter \<in> set (comparisons (Filters nestedPlan))
   \<and> Operation nestedPlan = OpSelect
   \<and> fst (BuildQuery NewQueryBuilder (Some nestedPlan)) =
       Inr (''SELECT * FROM orders t0 WHERE (t0.amount > $1 AND NOT t0.user_id = $2::uuid) LIMIT $3 OFFSET $4;'',
            [VInt 10, VStr ''11111111-1111-1111-1111-111111111111'', VInt 100, VInt 0])
   \<and> (\<exists>n pre post. 0 < n \<and> n \<le> 4
         \<and> [VInt 10, VStr ''11111111-1111-1111-1111-111111111111'', VInt 100, VInt 0] ! nat (n - 1)
             = VStr ''11111111-1111-1111-1111-111111111111''
         \<and> ''SELECT * FROM orders t0 WHERE (t0.amount > $1 AND NOT t0.user_id = $2::uuid) LIMIT $3 OFFSET $4;''
             = pre @ expectedComparison n uuidFilter @ post
         \<and> endsToken post)"
proof -
  have v: "Value uuidFilter = Some \<lparr>Value_v = VStr ''11111111-1111-1111-1111-111111111111''\<rparr>"
    by (simp add: uuidFilter_def)
  have h: "castRuleApplies uuidFilter" "uuidFilter \<in> set (comparisons (Filters nestedPlan))"
    "Operation nestedPlan = OpSelect"
    by (simp_all add: castRuleApplies_def uuidFilter_def nestedPlan_def)
  have leaf: "fst (buildComparisonFilter NewQueryBuilder uuidFilter) = Inr ''t0.user_id = $1::uuid''"
    using cast_placement[OF v, of NewQueryBuilder]
    by (simp add: uuidFilter_def NewQueryBuilder_def colNameOf_def spec_cast_def showInt_def
        showNat.simps digit_def)
  have ex: "\<exists>n pre post. 0 < n \<and> n \<le> 4
         \<and> [VInt 10, VStr ''11111111-1111-1111-1111-111111111111'', VInt 100, VInt 0] ! nat (n - 1)
             = VStr ''11111111-1111-1111-1111-111111111111''
         \<and> ''SELECT * FROM orders t0 WHERE (t0.amount > $1 AND NOT t0.user_id = $2::uuid) LIMIT $3 OFFSET $4;''
             = pre @ expectedComparison n uuidFilter @ post
         \<and> endsToken post"
    using cast_placement[OF v, where plan = nestedPlan and ?qb0.0 = NewQueryBuilder
        and sql = "''SELECT * FROM orders t0 WHERE (t0.amount > $1 AND NOT t0.user_id = $2::uuid) LIMIT $3 OFFSET $4;''"
        and ps = "[VInt 10, VStr ''11111111-1111-1111-1111-111111111111'', VInt 100, VInt 0]"]
      h nested_scenario
    by simp
  show ?thesis using v h leaf ex nested_scenario by (simp add: uuidFilter_def)
qed

section \<open>Properties of the document builder\<close>

text \<open>
  C3. On an update plan and on a delete plan that carry only an identifier, the
  document builder emits the empty filter, which matches every document; \<open>plan.ID\<close>
  is not read.
\<close>

theorem mongo_id_only_filter_is_empty:
  "BuildQuery_mongo (Some updateByIdPlan) =
     Inr \<lparr>Collection = ''users'', Operation_m = ''update'', Filter = VMap [],
          Pipeline = VNil, Update = VMap [(''$set'', VMap [(''name'', VStr ''X'')])],
          Document = VNil, Options = None\<rparr>
   \<and> BuildQuery_mongo (Some deleteByIdPlan) =
     Inr \<lparr>Collection = ''users'', Operation_m = ''delete'', Filter = VMap [],
          Pipeline = VNil, Update = VNil, Document = VNil, Options = None\<rparr>"
  by code_simp

text \<open>
  C5. On the select plan with a group-by column and a count aggregate, the document
  builder emits a \<open>find\<close> command without a pipeline.
\<close>

theorem mongo_group_by_emits_find:
  "BuildQuery_mongo (Some groupCountPlan) =
     Inr \<lparr>Collection = ''orders'', Operation_m = ''find'', Filter = VMap [],
          Pipeline = VNil, Update = VNil, Document = VNil,
          Options = Some \<lparr>Limit_o = Some 100, Skip_o = None, Sort_o = None\<rparr>\<rparr>"
  by code_simp

text \<open>
  C6. On an \<open>is_null\<close> and on a \<open>not_null\<close> comparison whose value is absent, the
  document builder dereferences the nil \<open>f.Value\<close> and panics.
\<close>

theorem mongo_null_check_panics:
  "buildComparisonFilter_mongo isNullFilter =
     Inl (Panic ''invalid memory address or nil pointer dereference'')
   \<and> buildComparisonFilter_mongo notNullFilter =
     Inl (Panic ''invalid memory address or nil pointer dereference'')
   \<and> buildFilterFromExpr (Comparison isNullFilter) =
     Inl (Panic ''invalid memory address or nil pointer dereference'')"
  by code_simp

section \<open>Properties of schema inference\<close>

text \<open>
  C9. Two strings of length 36 with four hyphens, one without any hexadecimal digit
  and one whose groups have the lengths 0, 0, 0, 0 and 32, are classified as uuid,
  whatever the date parser answers.
\<close>

theorem isUUID_accepts_non_uuid:
  "isUUID ''zzzzzzzz-zzzz-zzzz-zzzz-zzzzzzzzzzzz''
   \<and> isUUID ''----zzzzzzzzzzzzzzzzzzzzzzzzzzzzzzzz''
   \<and> inferTypeFromValue parses (BString ''zzzzzzzz-zzzz-zzzz-zzzz-zzzzzzzzzzzz'') = TypeUUID
   \<and> inferTypeFromValue parses (BString ''----zzzzzzzzzzzzzzzzzzzzzzzzzzzzzzzz'') = TypeUUID"
  by (simp add: inferTypeFromValue_def isUUID_def)

lemma goDiv_double: "0 < c \<Longrightarrow> goDiv (2 * c) 2 = c"
  by (simp add: goDiv_def)

text \<open>
  C7, as the code has it. When the counts hold exactly two types with the same
  positive count \<open>c\<close> and the total is \<open>2 * c\<close>, the most frequent count is not
  strictly below half of the total, the numeric-string rule is not consulted, and the
  result is the type that the enumeration of the counts visits first.
\<close>

theorem even_split_resolves_first_enumerated:
  assumes "0 < c" and "TypeCounts stats = [(t1, c), (t2, c)]" and "TotalCount stats = 2 * c"
  shows "fst (ResolveFieldType (Some stats)) = t1"
  using assms by (simp add: ResolveFieldType_def goDiv_double Let_def)

theorem even_split_resolves_first_enumerated_witness:
  "(0::int) < 50 \<and> TypeCounts evenSplitIntegerFirst = [(TypeInteger, 50), (TypeString, 50)]
   \<and> TotalCount evenSplitIntegerFirst = 2 * 50
   \<and> fst (ResolveFieldType (Some evenSplitIntegerFirst)) = TypeInteger"
proof -
  have h: "(0::int) < 50" "TypeCounts evenSplitIntegerFirst = [(TypeInteger, 50), (TypeString, 50)]"
    "TotalCount evenSplitIntegerFirst = 2 * 50"
    by (simp_all add: evenSplitIntegerFirst_def)
  show ?thesis
    using h even_split_resolves_first_enumerated[OF h] by simp
qed

text \<open>
  C7, counterexample. With the string count enumerated first, the evenly split field with the samples
  \<open>"12"\<close> and \<open>"34"\<close> resolves to string.
\<close>

theorem even_split_string_first_is_string:
  "fst (ResolveFieldType (Some evenSplitStringFirst)) = TypeString
   \<and> fst (ResolveFieldType (Some evenSplitStringFirst)) \<noteq> TypeInteger"
  by (simp add: ResolveFieldType_def evenSplitStringFirst_def goDiv_def Let_def)














end
